theory Spec2Isabelle
  imports Main "HOL-Library.Word"
begin

section \<open>Data model of the mint core (mint/mint.go)\<close>

text \<open>
  Go's \<open>uint64\<close> is a 64-bit word; \<open>+\<close> and \<open>-\<close> wrap around as in Go.
  Go's \<open>uint\<close> (the fee type) is taken at its 64-bit width.
  Points, keys, hashes and byte strings are carried as strings, private scalars as
  natural numbers: the mint core only hands them to the crypto package.
  The struct types of the packages cashu, crypto, storage, lightning, nut10, nut11 and
  ln-decodepay are declared outside mint.go; the records below have the fields that
  mint.go reads and writes, under the names it uses (prefixed, since field names are
  global here).
\<close>

type_synonym u64 = "64 word"
type_synonym PrivateKey = nat
type_synonym PublicKey = string

datatype ErrCode = StandardErrCode | LightningBackendErrCode | DBErrCode

text \<open>
  The error values of package cashu and nut11 that mint.go returns.
  \<open>BuildCashuError msg code\<close> is kept by its code; the message text is dropped.
  \<open>OtherErr\<close> carries an error handed through from a parser of nut11;
  \<open>RuntimePanic\<close> stands for Go's panic on an index out of range.
\<close>

datatype error =
    PaymentMethodNotSupportedErr
  | UnitNotSupportedErr
  | QuoteNotExistErr
  | MintQuoteRequestNotPaid
  | MintQuoteAlreadyIssued
  | OutputsOverQuoteAmountErr
  | InvalidBlindedMessageAmount
  | BlindedMessageAlreadySigned
  | InactiveKeysetSignatureRequest
  | UnknownKeysetErr
  | InvalidProofErr
  | NoProofsProvided
  | ProofPendingErr
  | ProofAlreadyUsedErr
  | DuplicateProofs
  | InsufficientProofsAmount
  | MeltQuoteAlreadyPaid
  | MeltQuotePending
  | MeltAmountExceededErr
  | StandardErr
  | BuildCashuError ErrCode
  | InvalidWitness
  | NotEnoughSignaturesErr
  | EmptyPubkeysErr
  | SigAllOnlySwap
  | AllSigAllFlagsErr
  | SigAllKeysMustBeEqualErr
  | NSigsMustBeEqualErr
  | OtherErr string
  | RuntimePanic

datatype nut04_State = nut04_Unpaid | nut04_Paid | nut04_Issued

datatype nut05_State = nut05_Unpaid | nut05_Pending | nut05_Paid

datatype lightning_State = lightning_Succeeded | lightning_Failed | lightning_Pending

record Proof =
  p_Amount :: u64
  p_Id :: string
  p_Secret :: string
  p_C :: string
  p_Witness :: string

record BlindedMessage =
  bm_Amount :: u64
  bm_B' :: string
  bm_Id :: string
  bm_Witness :: string

record BlindedSignature =
  sig_Amount :: u64
  sig_C' :: string
  sig_Id :: string
  sig_DLEQ_E :: string
  sig_DLEQ_S :: string

record MintKeyset =
  ks_Id :: string
  ks_Active :: bool
  ks_Keys :: "(u64 \<times> PrivateKey) list"
  ks_InputFeePpk :: u64

record MintQuote =
  mq_Id :: string
  mq_Amount :: u64
  mq_PaymentRequest :: string
  mq_PaymentHash :: string
  mq_State :: nut04_State
  mq_Expiry :: u64

record MeltQuote =
  lq_Id :: string
  lq_InvoiceRequest :: string
  lq_PaymentHash :: string
  lq_Amount :: u64
  lq_FeeReserve :: u64
  lq_State :: nut05_State
  lq_Expiry :: u64
  lq_Preimage :: string

record DBProof =
  dbp_Y :: string
  dbp_Amount :: u64
  dbp_Id :: string
  dbp_Secret :: string
  dbp_C :: string
  dbp_MeltQuoteId :: string

record Invoice =
  inv_PaymentRequest :: string
  inv_PaymentHash :: string
  inv_Preimage :: string
  inv_Settled :: bool
  inv_Amount :: u64
  inv_Expiry :: u64

record PaymentStatus =
  ps_Preimage :: string
  ps_PaymentStatus :: lightning_State

record WellKnownSecret =
  wks_Nonce :: string
  wks_Data :: string
  wks_Tags :: "string list list"

record P2PKTags =
  tags_Sigflag :: string
  tags_NSigs :: int
  tags_Pubkeys :: "PublicKey list"
  tags_Locktime :: int
  tags_Refund :: "PublicKey list"

record Bolt11 =
  b11_MSatoshi :: u64
  b11_PaymentHash :: string

record MintMethodSettings =
  MinAmount :: u64
  MaxAmount :: u64

record MintLimits =
  MaxBalance :: u64
  MintingSettings :: MintMethodSettings
  MeltingSettings :: MintMethodSettings

section \<open>What the mint core calls but does not define\<close>

text \<open>
  The packages crypto, nut10, nut11, encoding/hex, encoding/json, ln-decodepay and the
  clock are not part of mint.go. Their functions are parameters of the model, gathered
  in one record: every theorem holds for whatever these functions compute, and a
  concrete record is only chosen where a statement is evaluated at an input.
  A function that can fail in Go returns \<open>None\<close> (or \<open>Inl\<close> of the error it hands on).
  \<open>HashToCurve\<close> returns the hex encoding of the compressed point, as the callers
  compute it right after the call.
\<close>

record Env =
  HashToCurve :: "string \<Rightarrow> string option"
  Verify :: "string \<Rightarrow> PrivateKey \<Rightarrow> string \<Rightarrow> bool"
  DecodeString :: "string \<Rightarrow> string option"
  ParsePubKey :: "string \<Rightarrow> string option"
  SignBlindedMessage :: "string \<Rightarrow> PrivateKey \<Rightarrow> string"
  GenerateDLEQ :: "PrivateKey \<Rightarrow> string \<Rightarrow> string \<Rightarrow> string \<times> string"
  Sum256 :: "string \<Rightarrow> string"
  DeserializeSecret :: "string \<Rightarrow> WellKnownSecret option"
  UnmarshalWitness :: "string \<Rightarrow> string list option"
  IsSecretP2PK :: "Proof \<Rightarrow> bool"
  ProofsSigAll :: "Proof list \<Rightarrow> bool"
  IsSigAll :: "WellKnownSecret \<Rightarrow> bool"
  ParseP2PKTags :: "string list list \<Rightarrow> error + P2PKTags"
  ParsePublicKey :: "string \<Rightarrow> error + PublicKey"
  PublicKeys :: "WellKnownSecret \<Rightarrow> error + PublicKey list"
  HasValidSignatures :: "string \<Rightarrow> string list \<Rightarrow> int \<Rightarrow> PublicKey list \<Rightarrow> bool"
  Decodepay :: "string \<Rightarrow> Bolt11 option"
  GenerateRandomQuoteId :: "string option"
  Now :: int

definition BOLT11_METHOD :: string where
  "BOLT11_METHOD = ''bolt11''"

definition SAT_UNIT :: string where
  "SAT_UNIT = ''sat''"

definition QuoteExpiryMins :: u64 where
  "QuoteExpiryMins = 10"

text \<open>\<open>strings.Contains\<close>: the second string occurs in the first as a contiguous run.\<close>

fun Contains :: "string \<Rightarrow> string \<Rightarrow> bool" where
  "Contains [] sub = (sub = [])"
| "Contains (c # cs) sub = (take (length sub) (c # cs) = sub \<or> Contains cs sub)"

section \<open>The repository (storage.MintDB)\<close>

text \<open>
  The storage driver behind the interface \<open>storage.MintDB\<close> is not among the sources;
  its calls are modelled from the spec's data model and repository contract. The
  tables are the mint quotes, the melt quotes, the pending proofs table, the spent
  proofs table and the signature table. Every call may fail for a reason of the
  driver's own: \<open>db_faults\<close> lists, call by call, whether the next calls fail (\<open>True\<close>);
  once the list is used up every call succeeds. A single-row query with no match fails
  with \<open>sql.ErrNoRows\<close>.
\<close>

datatype db_error = ErrNoRows | ErrDriver

record MintDB =
  mint_quotes :: "MintQuote list"
  melt_quotes :: "MeltQuote list"
  pending_proofs :: "DBProof list"
  used_proofs :: "DBProof list"
  blind_signatures :: "(string \<times> BlindedSignature) list"
  db_faults :: "bool list"

text \<open>
  Modelled from the spec: the driver is missing. One repository call: whether it fails, and the
  repository with the failure list advanced.
\<close>

definition db_call :: "MintDB \<Rightarrow> bool \<times> MintDB" where
  "db_call d = (case db_faults d of [] \<Rightarrow> (False, d) | f # fs \<Rightarrow> (f, d\<lparr>db_faults := fs\<rparr>))"

text \<open>
  Modelled from the spec: the proof tables of the missing driver. The row of a proof: its \<open>Y\<close>
  (\<open>hash_to_curve\<close> of the secret), its fields and the owning quote id.
\<close>

definition db_row :: "Env \<Rightarrow> string \<Rightarrow> Proof \<Rightarrow> DBProof option" where
  "db_row env quoteId p =
     (case HashToCurve env (p_Secret p) of
        None \<Rightarrow> None
      | Some y \<Rightarrow> Some \<lparr>dbp_Y = y, dbp_Amount = p_Amount p, dbp_Id = p_Id p,
                        dbp_Secret = p_Secret p, dbp_C = p_C p, dbp_MeltQuoteId = quoteId\<rparr>)"

fun db_rows :: "Env \<Rightarrow> string \<Rightarrow> Proof list \<Rightarrow> DBProof list option" where
  "db_rows env quoteId [] = Some []"
| "db_rows env quoteId (p # ps) =
     (case db_row env quoteId p of
        None \<Rightarrow> None
      | Some r \<Rightarrow> (case db_rows env quoteId ps of None \<Rightarrow> None | Some rs \<Rightarrow> Some (r # rs)))"

text \<open>
  Modelled from the spec: \<open>SaveMintQuote\<close> of the missing driver persists the quote.
\<close>

definition SaveMintQuote :: "MintQuote \<Rightarrow> MintDB \<Rightarrow> (db_error + unit) \<times> MintDB" where
  "SaveMintQuote q d =
     (case db_call d of
        (True, d') \<Rightarrow> (Inl ErrDriver, d')
      | (False, d') \<Rightarrow> (Inr (), d'\<lparr>mint_quotes := mint_quotes d' @ [q]\<rparr>))"

text \<open>
  Modelled from the spec: \<open>GetMintQuote\<close> of the missing driver returns the mint quote with the id.
\<close>

definition GetMintQuote :: "string \<Rightarrow> MintDB \<Rightarrow> (db_error + MintQuote) \<times> MintDB" where
  "GetMintQuote quoteId d =
     (case db_call d of
        (True, d') \<Rightarrow> (Inl ErrDriver, d')
      | (False, d') \<Rightarrow>
          (case find (\<lambda>q. mq_Id q = quoteId) (mint_quotes d') of
             None \<Rightarrow> (Inl ErrNoRows, d')
           | Some q \<Rightarrow> (Inr q, d')))"

text \<open>
  Modelled from the spec: \<open>GetMintQuoteByPaymentHash\<close> of the missing driver returns the mint
  quote with the payment hash ("matched by \<open>payment_hash\<close>").
\<close>

definition GetMintQuoteByPaymentHash :: "string \<Rightarrow> MintDB \<Rightarrow> (db_error + MintQuote) \<times> MintDB" where
  "GetMintQuoteByPaymentHash h d =
     (case db_call d of
        (True, d') \<Rightarrow> (Inl ErrDriver, d')
      | (False, d') \<Rightarrow>
          (case find (\<lambda>q. mq_PaymentHash q = h) (mint_quotes d') of
             None \<Rightarrow> (Inl ErrNoRows, d')
           | Some q \<Rightarrow> (Inr q, d')))"

text \<open>
  Modelled from the spec: \<open>UpdateMintQuoteState\<close> of the missing driver sets the state of the
  mint quote with the id.
\<close>

definition UpdateMintQuoteState :: "string \<Rightarrow> nut04_State \<Rightarrow> MintDB \<Rightarrow> (db_error + unit) \<times> MintDB" where
  "UpdateMintQuoteState quoteId st d =
     (case db_call d of
        (True, d') \<Rightarrow> (Inl ErrDriver, d')
      | (False, d') \<Rightarrow>
          (Inr (), d'\<lparr>mint_quotes :=
             map (\<lambda>q. if mq_Id q = quoteId then q\<lparr>mq_State := st\<rparr> else q) (mint_quotes d')\<rparr>))"

text \<open>
  Modelled from the spec: \<open>SaveMeltQuote\<close> of the missing driver persists the quote.
\<close>

definition SaveMeltQuote :: "MeltQuote \<Rightarrow> MintDB \<Rightarrow> (db_error + unit) \<times> MintDB" where
  "SaveMeltQuote q d =
     (case db_call d of
        (True, d') \<Rightarrow> (Inl ErrDriver, d')
      | (False, d') \<Rightarrow> (Inr (), d'\<lparr>melt_quotes := melt_quotes d' @ [q]\<rparr>))"

text \<open>
  Modelled from the spec: \<open>GetMeltQuote\<close> of the missing driver returns the melt quote with the id.
\<close>

definition GetMeltQuote :: "string \<Rightarrow> MintDB \<Rightarrow> (db_error + MeltQuote) \<times> MintDB" where
  "GetMeltQuote quoteId d =
     (case db_call d of
        (True, d') \<Rightarrow> (Inl ErrDriver, d')
      | (False, d') \<Rightarrow>
          (case find (\<lambda>q. lq_Id q = quoteId) (melt_quotes d') of
             None \<Rightarrow> (Inl ErrNoRows, d')
           | Some q \<Rightarrow> (Inr q, d')))"

text \<open>
  Modelled from the spec: \<open>UpdateMeltQuote\<close> of the missing driver sets the preimage and the
  state of the melt quote with the id.
\<close>

definition UpdateMeltQuote :: "string \<Rightarrow> string \<Rightarrow> nut05_State \<Rightarrow> MintDB \<Rightarrow> (db_error + unit) \<times> MintDB" where
  "UpdateMeltQuote quoteId preimage st d =
     (case db_call d of
        (True, d') \<Rightarrow> (Inl ErrDriver, d')
      | (False, d') \<Rightarrow>
          (Inr (), d'\<lparr>melt_quotes :=
             map (\<lambda>q. if lq_Id q = quoteId then q\<lparr>lq_State := st, lq_Preimage := preimage\<rparr> else q)
               (melt_quotes d')\<rparr>))"

text \<open>
  Modelled from the spec: \<open>SaveProofs\<close> of the missing driver adds the proofs to the spent
  proofs table.
\<close>

definition SaveProofs :: "Env \<Rightarrow> Proof list \<Rightarrow> MintDB \<Rightarrow> (db_error + unit) \<times> MintDB" where
  "SaveProofs env proofs d =
     (case db_call d of
        (True, d') \<Rightarrow> (Inl ErrDriver, d')
      | (False, d') \<Rightarrow>
          (case db_rows env [] proofs of
             None \<Rightarrow> (Inl ErrDriver, d')
           | Some rs \<Rightarrow> (Inr (), d'\<lparr>used_proofs := used_proofs d' @ rs\<rparr>)))"

text \<open>
  Modelled from the spec: \<open>GetProofsUsed\<close> of the missing driver queries the spent proofs table
  by \<open>Y\<close>.
\<close>

definition GetProofsUsed :: "string list \<Rightarrow> MintDB \<Rightarrow> (db_error + DBProof list) \<times> MintDB" where
  "GetProofsUsed Ys d =
     (case db_call d of
        (True, d') \<Rightarrow> (Inl ErrDriver, d')
      | (False, d') \<Rightarrow> (Inr (filter (\<lambda>r. dbp_Y r \<in> set Ys) (used_proofs d')), d'))"

text \<open>
  Modelled from the spec: \<open>AddPendingProofs\<close> of the missing driver adds the proofs to the
  pending table, "keyed by their \<open>Y\<close> and tagged with the owning \<open>quote_id\<close>".
\<close>

definition AddPendingProofs :: "Env \<Rightarrow> Proof list \<Rightarrow> string \<Rightarrow> MintDB \<Rightarrow> (db_error + unit) \<times> MintDB" where
  "AddPendingProofs env proofs quoteId d =
     (case db_call d of
        (True, d') \<Rightarrow> (Inl ErrDriver, d')
      | (False, d') \<Rightarrow>
          (case db_rows env quoteId proofs of
             None \<Rightarrow> (Inl ErrDriver, d')
           | Some rs \<Rightarrow> (Inr (), d'\<lparr>pending_proofs := pending_proofs d' @ rs\<rparr>)))"

text \<open>
  Modelled from the spec: \<open>GetPendingProofs\<close> of the missing driver queries the pending table
  by \<open>Y\<close>.
\<close>

definition GetPendingProofs :: "string list \<Rightarrow> MintDB \<Rightarrow> (db_error + DBProof list) \<times> MintDB" where
  "GetPendingProofs Ys d =
     (case db_call d of
        (True, d') \<Rightarrow> (Inl ErrDriver, d')
      | (False, d') \<Rightarrow> (Inr (filter (\<lambda>r. dbp_Y r \<in> set Ys) (pending_proofs d')), d'))"

text \<open>
  Modelled from the spec: \<open>GetPendingProofsByQuote\<close> of the missing driver returns the pending
  proofs tagged with the quote id.
\<close>

definition GetPendingProofsByQuote :: "string \<Rightarrow> MintDB \<Rightarrow> (db_error + DBProof list) \<times> MintDB" where
  "GetPendingProofsByQuote quoteId d =
     (case db_call d of
        (True, d') \<Rightarrow> (Inl ErrDriver, d')
      | (False, d') \<Rightarrow> (Inr (filter (\<lambda>r. dbp_MeltQuoteId r = quoteId) (pending_proofs d')), d'))"

text \<open>
  Modelled from the spec: \<open>RemovePendingProofs\<close> of the missing driver removes the rows with
  the given \<open>Y\<close> from the pending table.
\<close>

definition RemovePendingProofs :: "string list \<Rightarrow> MintDB \<Rightarrow> (db_error + unit) \<times> MintDB" where
  "RemovePendingProofs Ys d =
     (case db_call d of
        (True, d') \<Rightarrow> (Inl ErrDriver, d')
      | (False, d') \<Rightarrow>
          (Inr (), d'\<lparr>pending_proofs := filter (\<lambda>r. dbp_Y r \<notin> set Ys) (pending_proofs d')\<rparr>))"

text \<open>
  Modelled from the spec: \<open>SaveBlindSignature\<close> of the missing driver persists the signature
  by \<open>B_\<close>.
\<close>

definition SaveBlindSignature :: "string \<Rightarrow> BlindedSignature \<Rightarrow> MintDB \<Rightarrow> (db_error + unit) \<times> MintDB" where
  "SaveBlindSignature B' sig d =
     (case db_call d of
        (True, d') \<Rightarrow> (Inl ErrDriver, d')
      | (False, d') \<Rightarrow> (Inr (), d'\<lparr>blind_signatures := blind_signatures d' @ [(B', sig)]\<rparr>))"

text \<open>
  Modelled from the spec: \<open>GetBlindSignature\<close> of the missing driver returns the signature
  stored under \<open>B_\<close>.
\<close>

definition GetBlindSignature :: "string \<Rightarrow> MintDB \<Rightarrow> (db_error + BlindedSignature) \<times> MintDB" where
  "GetBlindSignature B' d =
     (case db_call d of
        (True, d') \<Rightarrow> (Inl ErrDriver, d')
      | (False, d') \<Rightarrow>
          (case map_of (blind_signatures d') B' of
             None \<Rightarrow> (Inl ErrNoRows, d')
           | Some sig \<Rightarrow> (Inr sig, d')))"

text \<open>
  Modelled from the spec: \<open>GetBlindSignatures\<close> of the missing driver returns the stored
  signatures whose \<open>B_\<close> is among the given ones.
\<close>

definition GetBlindSignatures :: "string list \<Rightarrow> MintDB \<Rightarrow> (db_error + BlindedSignature list) \<times> MintDB" where
  "GetBlindSignatures B's d =
     (case db_call d of
        (True, d') \<Rightarrow> (Inl ErrDriver, d')
      | (False, d') \<Rightarrow>
          (Inr (map snd (filter (\<lambda>r. fst r \<in> set B's) (blind_signatures d'))), d'))"

section \<open>The Lightning backend (lightning.Client)\<close>

text \<open>
  The interface \<open>lightning.Client\<close> is declared outside mint.go; the backend is a
  record of its functions. A call returns Go's pair of a value and an error (\<open>None\<close>
  for \<open>nil\<close>, else the error's message), since mint.go reads the returned status also
  when the error is set. \<open>ln_calls\<close> records the calls made, oldest first.
\<close>

datatype ln_call =
    CallInvoiceStatus string
  | CallSendPayment string u64
  | CallOutgoingPaymentStatus string
  | CallFeeReserve u64

record LightningClient =
  ln_InvoiceStatus :: "string \<Rightarrow> Invoice \<times> string option"
  ln_SendPayment :: "string \<Rightarrow> u64 \<Rightarrow> PaymentStatus \<times> string option"
  ln_OutgoingPaymentStatus :: "string \<Rightarrow> PaymentStatus \<times> string option"
  ln_FeeReserve :: "u64 \<Rightarrow> u64"
  ln_calls :: "ln_call list"

record Mint =
  db :: MintDB
  activeKeysets :: "(string \<times> MintKeyset) list"
  keysets :: "(string \<times> MintKeyset) list"
  lightningClient :: LightningClient
  limits :: MintLimits

definition ln_record :: "ln_call \<Rightarrow> Mint \<Rightarrow> Mint" where
  "ln_record c m =
     m\<lparr>lightningClient := (lightningClient m)\<lparr>ln_calls := ln_calls (lightningClient m) @ [c]\<rparr>\<rparr>"

text \<open>
  Modelled from the spec: \<open>InvoiceStatus(payment_hash)\<close> of the backend interface.
\<close>

definition InvoiceStatus :: "string \<Rightarrow> Mint \<Rightarrow> (Invoice \<times> string option) \<times> Mint" where
  "InvoiceStatus h m = (ln_InvoiceStatus (lightningClient m) h, ln_record (CallInvoiceStatus h) m)"

text \<open>
  Modelled from the spec: \<open>SendPayment(ctx, bolt11, max_fee_sat)\<close> of the backend interface.
\<close>

definition SendPayment :: "string \<Rightarrow> u64 \<Rightarrow> Mint \<Rightarrow> (PaymentStatus \<times> string option) \<times> Mint" where
  "SendPayment request maxFee m =
     (ln_SendPayment (lightningClient m) request maxFee, ln_record (CallSendPayment request maxFee) m)"

text \<open>
  Modelled from the spec: \<open>OutgoingPaymentStatus(ctx, payment_hash)\<close> of the backend interface.
\<close>

definition OutgoingPaymentStatus :: "string \<Rightarrow> Mint \<Rightarrow> (PaymentStatus \<times> string option) \<times> Mint" where
  "OutgoingPaymentStatus h m =
     (ln_OutgoingPaymentStatus (lightningClient m) h, ln_record (CallOutgoingPaymentStatus h) m)"

text \<open>
  Modelled from the spec: \<open>FeeReserve(amount_sat)\<close> of the backend interface.
\<close>

definition FeeReserve :: "u64 \<Rightarrow> Mint \<Rightarrow> u64 \<times> Mint" where
  "FeeReserve amount m = (ln_FeeReserve (lightningClient m) amount, ln_record (CallFeeReserve amount) m)"

text \<open>A repository call made by the mint: the call runs on the mint's \<open>db\<close> field.\<close>

definition on_db :: "(MintDB \<Rightarrow> 'a \<times> MintDB) \<Rightarrow> Mint \<Rightarrow> 'a \<times> Mint" where
  "on_db f m = (case f (db m) of (r, d) \<Rightarrow> (r, m\<lparr>db := d\<rparr>))"


section \<open>Signing (signBlindedMessages)\<close>

fun signBlindedMessages ::
  "Env \<Rightarrow> BlindedMessage list \<Rightarrow> Mint \<Rightarrow> (error + BlindedSignature list) \<times> Mint" where
  "signBlindedMessages env [] m = (Inr [], m)"
| "signBlindedMessages env (msg # msgs) m =
     (case map_of (keysets m) (bm_Id msg) of
        None \<Rightarrow> (Inl UnknownKeysetErr, m)
      | Some _ \<Rightarrow>
     (case map_of (activeKeysets m) (bm_Id msg) of
        None \<Rightarrow> (Inl InactiveKeysetSignatureRequest, m)
      | Some keyset \<Rightarrow>
     (case map_of (ks_Keys keyset) (bm_Amount msg) of
        None \<Rightarrow> (Inl InvalidBlindedMessageAmount, m)
      | Some k \<Rightarrow>
     (case DecodeString env (bm_B' msg) of
        None \<Rightarrow> (Inl StandardErr, m)
      | Some B_bytes \<Rightarrow>
     (case ParsePubKey env B_bytes of
        None \<Rightarrow> (Inl (BuildCashuError StandardErrCode), m)
      | Some B' \<Rightarrow>
          (let C' = SignBlindedMessage env B' k;
               es = GenerateDLEQ env k B' C';
               blindedSignature =
                 \<lparr>sig_Amount = bm_Amount msg, sig_C' = C', sig_Id = ks_Id keyset,
                  sig_DLEQ_E = fst es, sig_DLEQ_S = snd es\<rparr>
           in case on_db (SaveBlindSignature (bm_B' msg) blindedSignature) m of
                (Inl _, m1) \<Rightarrow> (Inl (BuildCashuError DBErrCode), m1)
              | (Inr _, m1) \<Rightarrow>
                  (case signBlindedMessages env msgs m1 of
                     (Inl e, m2) \<Rightarrow> (Inl e, m2)
                   | (Inr sigs, m2) \<Rightarrow> (Inr (blindedSignature # sigs), m2))))))))"

section \<open>Minting (MintTokens)\<close>

definition MintTokens ::
  "Env \<Rightarrow> string \<Rightarrow> string \<Rightarrow> BlindedMessage list \<Rightarrow> Mint \<Rightarrow> (error + BlindedSignature list) \<times> Mint" where
  "MintTokens env method quoteId blindedMessages m =
     (if method \<noteq> BOLT11_METHOD then (Inl PaymentMethodNotSupportedErr, m)
      else case on_db (GetMintQuote quoteId) m of
        (Inl _, m1) \<Rightarrow> (Inl QuoteNotExistErr, m1)
      | (Inr mintQuote, m1) \<Rightarrow>
     (case (if mq_State mintQuote = nut04_Unpaid
            then (case InvoiceStatus (mq_PaymentHash mintQuote) m1 of
                    ((_, Some _), m2) \<Rightarrow> (Inl (BuildCashuError LightningBackendErrCode), m2)
                  | ((invoiceStatus, None), m2) \<Rightarrow> (Inr (inv_Settled invoiceStatus), m2))
            else (Inr True, m1)) of
        (Inl e, m2) \<Rightarrow> (Inl e, m2)
      | (Inr invoicePaid, m2) \<Rightarrow>
          if invoicePaid then
            if mq_State mintQuote = nut04_Issued then (Inl MintQuoteAlreadyIssued, m2)
            else
              (let blindedMessagesAmount = foldl (\<lambda>a bm. a + bm_Amount bm) 0 blindedMessages;
                   B's = map bm_B' blindedMessages
               in if length blindedMessages > 0 \<and>
                     list_ex (\<lambda>msg. blindedMessagesAmount < bm_Amount msg) blindedMessages
                  then (Inl InvalidBlindedMessageAmount, m2)
                  else if blindedMessagesAmount > mq_Amount mintQuote
                  then (Inl OutputsOverQuoteAmountErr, m2)
                  else case on_db (GetBlindSignatures B's) m2 of
                    (Inl _, m3) \<Rightarrow> (Inl (BuildCashuError DBErrCode), m3)
                  | (Inr sigs, m3) \<Rightarrow>
                      if length sigs > 0 then (Inl BlindedMessageAlreadySigned, m3)
                      else case signBlindedMessages env blindedMessages m3 of
                        (Inl e, m4) \<Rightarrow> (Inl e, m4)
                      | (Inr blindedSignatures, m4) \<Rightarrow>
                          (case on_db (UpdateMintQuoteState (mq_Id mintQuote) nut04_Issued) m4 of
                             (Inl _, m5) \<Rightarrow> (Inl (BuildCashuError DBErrCode), m5)
                           | (Inr _, m5) \<Rightarrow> (Inr blindedSignatures, m5)))
          else (Inl MintQuoteRequestNotPaid, m2)))"


section \<open>Proof validation (verifyProofs, verifyP2PKLockedProof)\<close>

text \<open>
  \<open>verifyP2PKLockedProof\<close>, lines 922-979. The current time is \<open>Now env\<close>.
  A witness that does not parse counts as an empty list of signatures.
\<close>

definition verifyP2PKLockedProof :: "Env \<Rightarrow> Proof \<Rightarrow> error option" where
  "verifyP2PKLockedProof env proof =
     (case DeserializeSecret env (p_Secret proof) of
        None \<Rightarrow> Some (BuildCashuError StandardErrCode)
      | Some p2pkWellKnownSecret \<Rightarrow>
     (let signatures = (case UnmarshalWitness env (p_Witness proof) of None \<Rightarrow> [] | Some sigs \<Rightarrow> sigs)
      in case ParseP2PKTags env (wks_Tags p2pkWellKnownSecret) of
        Inl err \<Rightarrow> Some err
      | Inr p2pkTags \<Rightarrow>
     (let signaturesRequired = (1::int)
      in if tags_Locktime p2pkTags > 0 \<and> Now env > tags_Locktime p2pkTags then
           (if length (tags_Refund p2pkTags) = 0 then None
            else
              (let hash = Sum256 env (p_Secret proof)
               in if length signatures < 1 then Some InvalidWitness
                  else if \<not> HasValidSignatures env hash signatures signaturesRequired (tags_Refund p2pkTags)
                  then Some NotEnoughSignaturesErr
                  else None))
         else
           (case ParsePublicKey env (wks_Data p2pkWellKnownSecret) of
              Inl err \<Rightarrow> Some err
            | Inr pubkey \<Rightarrow>
                (let keys = [pubkey];
                     hash = Sum256 env (p_Secret proof)
                 in if tags_NSigs p2pkTags > 0 \<and> length (tags_Pubkeys p2pkTags) = 0
                    then Some EmptyPubkeysErr
                    else
                      (let signaturesRequired =
                             (if tags_NSigs p2pkTags > 0 then tags_NSigs p2pkTags else signaturesRequired);
                           keys = (if tags_NSigs p2pkTags > 0 then keys @ tags_Pubkeys p2pkTags else keys)
                       in if length signatures < 1 then Some InvalidWitness
                          else if \<not> HasValidSignatures env hash signatures signaturesRequired keys
                          then Some NotEnoughSignaturesErr
                          else None))))))"

text \<open>
  Modelled from the spec: \<open>cashu.CheckDuplicateProofs\<close> is not among the sources. The
  spec's proof validator rejects a "duplicate \<open>Y\<close> within the submitted list", where
  \<open>Y = hash_to_curve(secret)\<close>.
\<close>

definition CheckDuplicateProofs :: "Env \<Rightarrow> Proof list \<Rightarrow> bool" where
  "CheckDuplicateProofs env proofs = (\<not> distinct (map (\<lambda>p. HashToCurve env (p_Secret p)) proofs))"

text \<open>The loop over the proofs at lines 884-918: it returns at the first proof that fails.\<close>

fun verifyProofs_loop :: "Env \<Rightarrow> Mint \<Rightarrow> Proof list \<Rightarrow> error option" where
  "verifyProofs_loop env m [] = None"
| "verifyProofs_loop env m (proof # rest) =
     (case map_of (keysets m) (p_Id proof) of
        None \<Rightarrow> Some UnknownKeysetErr
      | Some keyset \<Rightarrow>
     (case map_of (ks_Keys keyset) (p_Amount proof) of
        None \<Rightarrow> Some InvalidProofErr
      | Some k \<Rightarrow>
     (case (if IsSecretP2PK env proof then verifyP2PKLockedProof env proof else None) of
        Some err \<Rightarrow> Some err
      | None \<Rightarrow>
     (case DecodeString env (p_C proof) of
        None \<Rightarrow> Some (BuildCashuError StandardErrCode)
      | Some Cbytes \<Rightarrow>
     (case ParsePubKey env Cbytes of
        None \<Rightarrow> Some (BuildCashuError StandardErrCode)
      | Some C \<Rightarrow>
          if \<not> Verify env (p_Secret proof) k C then Some InvalidProofErr
          else verifyProofs_loop env m rest)))))"

definition verifyProofs :: "Env \<Rightarrow> Proof list \<Rightarrow> string list \<Rightarrow> Mint \<Rightarrow> error option \<times> Mint" where
  "verifyProofs env proofs Ys m =
     (if length proofs = 0 then (Some NoProofsProvided, m)
      else case on_db (GetPendingProofs Ys) m of
        (Inl ErrDriver, m1) \<Rightarrow> (Some (BuildCashuError DBErrCode), m1)
      | (pendingRes, m1) \<Rightarrow>
          if length (case pendingRes of Inr pendingProofs \<Rightarrow> pendingProofs | Inl _ \<Rightarrow> []) \<noteq> 0
          then (Some ProofPendingErr, m1)
          else case on_db (GetProofsUsed Ys) m1 of
            (Inl ErrDriver, m2) \<Rightarrow> (Some (BuildCashuError DBErrCode), m2)
          | (usedRes, m2) \<Rightarrow>
              if length (case usedRes of Inr usedProofs \<Rightarrow> usedProofs | Inl _ \<Rightarrow> []) \<noteq> 0
              then (Some ProofAlreadyUsedErr, m2)
              else if CheckDuplicateProofs env proofs then (Some DuplicateProofs, m2)
              else (verifyProofs_loop env m2 proofs, m2))"

section \<open>Fees and swap (TransactionFees, Swap)\<close>

definition TransactionFees :: "Mint \<Rightarrow> Proof list \<Rightarrow> u64" where
  "TransactionFees m inputs =
     (foldl (\<lambda>fees proof.
               fees + (case map_of (keysets m) (p_Id proof) of
                         None \<Rightarrow> 0
                       | Some keyset \<Rightarrow> ks_InputFeePpk keyset)) 0 inputs + 999) div 1000"

text \<open>
  The first loop of \<open>Swap\<close> and \<open>MeltTokens\<close>: \<open>Y\<close> of every proof, in hex; the
  caller returns \<open>InvalidProofErr\<close> at the first secret that does not hash.
\<close>

fun proofs_Ys :: "Env \<Rightarrow> Proof list \<Rightarrow> string list option" where
  "proofs_Ys env [] = Some []"
| "proofs_Ys env (proof # rest) =
     (case HashToCurve env (p_Secret proof) of
        None \<Rightarrow> None
      | Some Yhex \<Rightarrow> (case proofs_Ys env rest of None \<Rightarrow> None | Some Ys \<Rightarrow> Some (Yhex # Ys)))"

text \<open>The two loops of \<open>verifyP2PKBlindedMessages\<close>, lines 1001-1035 and 1037-1053.\<close>

fun sigall_proofs_loop :: "Env \<Rightarrow> PublicKey list \<Rightarrow> int \<Rightarrow> Proof list \<Rightarrow> error option" where
  "sigall_proofs_loop env pubkeys signaturesRequired [] = None"
| "sigall_proofs_loop env pubkeys signaturesRequired (proof # rest) =
     (case DeserializeSecret env (p_Secret proof) of
        None \<Rightarrow> Some (BuildCashuError StandardErrCode)
      | Some secret \<Rightarrow>
          if \<not> IsSigAll env secret then Some AllSigAllFlagsErr
          else case ParseP2PKTags env (wks_Tags secret) of
            Inl err \<Rightarrow> Some err
          | Inr p2pkTags \<Rightarrow>
              (let currentSignaturesRequired =
                     (if tags_NSigs p2pkTags > 0 then tags_NSigs p2pkTags else 1)
               in case PublicKeys env secret of
                    Inl err \<Rightarrow> Some err
                  | Inr currentKeys \<Rightarrow>
                      if pubkeys \<noteq> currentKeys then Some SigAllKeysMustBeEqualErr
                      else if signaturesRequired \<noteq> currentSignaturesRequired then Some NSigsMustBeEqualErr
                      else sigall_proofs_loop env pubkeys signaturesRequired rest))"

fun sigall_outputs_loop :: "Env \<Rightarrow> PublicKey list \<Rightarrow> int \<Rightarrow> BlindedMessage list \<Rightarrow> error option" where
  "sigall_outputs_loop env pubkeys signaturesRequired [] = None"
| "sigall_outputs_loop env pubkeys signaturesRequired (bm # rest) =
     (case DecodeString env (bm_B' bm) of
        None \<Rightarrow> Some (BuildCashuError StandardErrCode)
      | Some B_bytes \<Rightarrow>
          (let hash = Sum256 env B_bytes
           in case UnmarshalWitness env (bm_Witness bm) of
                None \<Rightarrow> Some InvalidWitness
              | Some signatures \<Rightarrow>
                  if length signatures < 1 then Some InvalidWitness
                  else if \<not> HasValidSignatures env hash signatures signaturesRequired pubkeys
                  then Some NotEnoughSignaturesErr
                  else sigall_outputs_loop env pubkeys signaturesRequired rest))"

definition verifyP2PKBlindedMessages :: "Env \<Rightarrow> Proof list \<Rightarrow> BlindedMessage list \<Rightarrow> error option" where
  "verifyP2PKBlindedMessages env proofs blindedMessages =
     (case proofs of
        [] \<Rightarrow> Some RuntimePanic
      | proof0 # _ \<Rightarrow>
     (case DeserializeSecret env (p_Secret proof0) of
        None \<Rightarrow> Some (BuildCashuError StandardErrCode)
      | Some secret \<Rightarrow>
     (case PublicKeys env secret of
        Inl err \<Rightarrow> Some err
      | Inr pubkeys \<Rightarrow>
     (case ParseP2PKTags env (wks_Tags secret) of
        Inl err \<Rightarrow> Some err
      | Inr p2pkTags \<Rightarrow>
          (let signaturesRequired = (if tags_NSigs p2pkTags > 0 then tags_NSigs p2pkTags else 1)
           in case sigall_proofs_loop env pubkeys signaturesRequired proofs of
                Some err \<Rightarrow> Some err
              | None \<Rightarrow> sigall_outputs_loop env pubkeys signaturesRequired blindedMessages)))))"

definition Swap ::
  "Env \<Rightarrow> Proof list \<Rightarrow> BlindedMessage list \<Rightarrow> Mint \<Rightarrow> (error + BlindedSignature list) \<times> Mint" where
  "Swap env proofs blindedMessages m =
     (case proofs_Ys env proofs of
        None \<Rightarrow> (Inl InvalidProofErr, m)
      | Some Ys \<Rightarrow>
     (let proofsAmount = foldl (\<lambda>a proof. a + p_Amount proof) 0 proofs;
          blindedMessagesAmount = foldl (\<lambda>a bm. a + bm_Amount bm) 0 blindedMessages;
          B's = map bm_B' blindedMessages
      in if length blindedMessages > 0 \<and>
            list_ex (\<lambda>msg. blindedMessagesAmount < bm_Amount msg) blindedMessages
         then (Inl InvalidBlindedMessageAmount, m)
         else
     (let fees = TransactionFees m proofs
      in if proofsAmount - fees < blindedMessagesAmount then (Inl InsufficientProofsAmount, m)
         else case verifyProofs env proofs Ys m of
           (Some err, m1) \<Rightarrow> (Inl err, m1)
         | (None, m1) \<Rightarrow>
     (case on_db (GetBlindSignatures B's) m1 of
        (Inl _, m2) \<Rightarrow> (Inl (BuildCashuError DBErrCode), m2)
      | (Inr sigs, m2) \<Rightarrow>
          if length sigs > 0 then (Inl BlindedMessageAlreadySigned, m2)
          else case (if ProofsSigAll env proofs
                     then verifyP2PKBlindedMessages env proofs blindedMessages else None) of
            Some err \<Rightarrow> (Inl err, m2)
          | None \<Rightarrow>
     (case signBlindedMessages env blindedMessages m2 of
        (Inl err, m3) \<Rightarrow> (Inl err, m3)
      | (Inr blindedSignatures, m3) \<Rightarrow>
          (case on_db (SaveProofs env proofs) m3 of
             (Inl _, m4) \<Rightarrow> (Inl (BuildCashuError DBErrCode), m4)
           | (Inr _, m4) \<Rightarrow> (Inr blindedSignatures, m4)))))))"


section \<open>Melting (RequestMeltQuote, MeltTokens)\<close>


definition settleQuotesInternally ::
  "MintQuote \<Rightarrow> MeltQuote \<Rightarrow> Mint \<Rightarrow> (error + MeltQuote) \<times> Mint" where
  "settleQuotesInternally mintQuote meltQuote m =
     (case InvoiceStatus (mq_PaymentHash mintQuote) m of
        ((_, Some _), m1) \<Rightarrow> (Inl (BuildCashuError LightningBackendErrCode), m1)
      | ((invoice, None), m1) \<Rightarrow>
     (let meltQuote = meltQuote\<lparr>lq_State := nut05_Paid, lq_Preimage := inv_Preimage invoice\<rparr>
      in case on_db (UpdateMeltQuote (lq_Id meltQuote) (lq_Preimage meltQuote) (lq_State meltQuote)) m1 of
           (Inl _, m2) \<Rightarrow> (Inl (BuildCashuError DBErrCode), m2)
         | (Inr _, m2) \<Rightarrow>
             (case on_db (UpdateMintQuoteState (mq_Id mintQuote) nut04_Paid) m2 of
                (Inl _, m3) \<Rightarrow> (Inl (BuildCashuError DBErrCode), m3)
              | (Inr _, m3) \<Rightarrow> (Inr meltQuote, m3))))"

definition settleProofs :: "Env \<Rightarrow> string list \<Rightarrow> Proof list \<Rightarrow> Mint \<Rightarrow> error option \<times> Mint" where
  "settleProofs env Ys proofs m =
     (case on_db (RemovePendingProofs Ys) m of
        (Inl _, m1) \<Rightarrow> (Some (BuildCashuError DBErrCode), m1)
      | (Inr _, m1) \<Rightarrow>
          (case on_db (SaveProofs env proofs) m1 of
             (Inl _, m2) \<Rightarrow> (Some (BuildCashuError DBErrCode), m2)
           | (Inr _, m2) \<Rightarrow> (None, m2)))"

text \<open>
  The branch of \<open>MeltTokens\<close> taken when a mint quote with the melt quote's payment hash
  exists (lines 651-666): the quotes are settled internally.
\<close>

definition MeltTokens_internal ::
  "Env \<Rightarrow> MintQuote \<Rightarrow> MeltQuote \<Rightarrow> string list \<Rightarrow> Proof list \<Rightarrow> Mint \<Rightarrow> (error + MeltQuote) \<times> Mint" where
  "MeltTokens_internal env mintQuote meltQuote Ys proofs m =
     (case settleQuotesInternally mintQuote meltQuote m of
        (Inl err, m1) \<Rightarrow> (Inl err, m1)
      | (Inr meltQuote, m1) \<Rightarrow>
          (case on_db (RemovePendingProofs Ys) m1 of
             (Inl _, m2) \<Rightarrow> (Inl (BuildCashuError DBErrCode), m2)
           | (Inr _, m2) \<Rightarrow>
               (case on_db (SaveProofs env proofs) m2 of
                  (Inl _, m3) \<Rightarrow> (Inl (BuildCashuError DBErrCode), m3)
                | (Inr _, m3) \<Rightarrow> (Inr meltQuote, m3))))"

text \<open>
  The \<open>switch sendPaymentResponse.PaymentStatus\<close> of \<open>MeltTokens\<close> (lines 693-750) and
  the return that follows it.
\<close>

definition MeltTokens_switch ::
  "Env \<Rightarrow> MeltQuote \<Rightarrow> string list \<Rightarrow> Proof list \<Rightarrow> PaymentStatus \<Rightarrow> Mint \<Rightarrow> (error + MeltQuote) \<times> Mint" where
  "MeltTokens_switch env meltQuote Ys proofs sendPaymentResponse m =
     (case ps_PaymentStatus sendPaymentResponse of
        lightning_Succeeded \<Rightarrow>
          (let meltQuote = meltQuote\<lparr>lq_State := nut05_Paid,
                                     lq_Preimage := ps_Preimage sendPaymentResponse\<rparr>
           in case settleProofs env Ys proofs m of
                (Some err, m1) \<Rightarrow> (Inl err, m1)
              | (None, m1) \<Rightarrow>
                  (case on_db (UpdateMeltQuote (lq_Id meltQuote) (ps_Preimage sendPaymentResponse) nut05_Paid) m1 of
                     (Inl _, m2) \<Rightarrow> (Inl (BuildCashuError DBErrCode), m2)
                   | (Inr _, m2) \<Rightarrow> (Inr meltQuote, m2)))
      | lightning_Pending \<Rightarrow> (Inr meltQuote, m)
      | lightning_Failed \<Rightarrow>
          (case OutgoingPaymentStatus (lq_PaymentHash meltQuote) m of
             ((paymentStatus, err), m1) \<Rightarrow>
               if ps_PaymentStatus paymentStatus = lightning_Pending then (Inr meltQuote, m1)
               else
                 (case (case err of
                          None \<Rightarrow> (Inr meltQuote, m1)
                        | Some _ \<Rightarrow>
                            (let meltQuote = meltQuote\<lparr>lq_State := nut05_Unpaid\<rparr>
                             in case on_db (UpdateMeltQuote (lq_Id meltQuote) [] (lq_State meltQuote)) m1 of
                                  (Inl _, m2) \<Rightarrow> (Inl (BuildCashuError DBErrCode), m2)
                                | (Inr _, m2) \<Rightarrow>
                                    (case on_db (RemovePendingProofs Ys) m2 of
                                       (Inl _, m3) \<Rightarrow> (Inl (BuildCashuError DBErrCode), m3)
                                     | (Inr _, m3) \<Rightarrow> (Inr meltQuote, m3)))) of
                    (Inl e, m4) \<Rightarrow> (Inl e, m4)
                  | (Inr meltQuote, m4) \<Rightarrow>
                      if ps_PaymentStatus paymentStatus = lightning_Succeeded then
                        (case settleProofs env Ys proofs m4 of
                           (Some e, m5) \<Rightarrow> (Inl e, m5)
                         | (None, m5) \<Rightarrow>
                             (let meltQuote = meltQuote\<lparr>lq_State := nut05_Paid,
                                                        lq_Preimage := ps_Preimage paymentStatus\<rparr>
                              in case on_db (UpdateMeltQuote (lq_Id meltQuote) (ps_Preimage paymentStatus) nut05_Paid) m5 of
                                   (Inl _, m6) \<Rightarrow> (Inl (BuildCashuError DBErrCode), m6)
                                 | (Inr _, m6) \<Rightarrow> (Inr meltQuote, m6)))
                      else (Inr meltQuote, m4))))"

text \<open>
  The branch of \<open>MeltTokens\<close> taken when no mint quote has the payment hash
  (lines 667-751): the backend is asked to pay.
\<close>

definition MeltTokens_external ::
  "Env \<Rightarrow> MeltQuote \<Rightarrow> string list \<Rightarrow> Proof list \<Rightarrow> Mint \<Rightarrow> (error + MeltQuote) \<times> Mint" where
  "MeltTokens_external env meltQuote Ys proofs m =
     (case SendPayment (lq_InvoiceRequest meltQuote) (lq_Amount meltQuote) m of
        ((sendPaymentResponse, None), m1) \<Rightarrow>
          MeltTokens_switch env meltQuote Ys proofs sendPaymentResponse m1
      | ((sendPaymentResponse, Some msg), m1) \<Rightarrow>
          if Contains msg ''payment error'' then
            (let meltQuote = meltQuote\<lparr>lq_State := nut05_Unpaid\<rparr>
             in case on_db (UpdateMeltQuote (lq_Id meltQuote) [] (lq_State meltQuote)) m1 of
                  (Inl _, m2) \<Rightarrow> (Inl (BuildCashuError DBErrCode), m2)
                | (Inr _, m2) \<Rightarrow>
                    (case on_db (RemovePendingProofs Ys) m2 of
                       (Inl _, m3) \<Rightarrow> (Inl (BuildCashuError DBErrCode), m3)
                     | (Inr _, m3) \<Rightarrow> (Inr meltQuote, m3)))
          else MeltTokens_switch env meltQuote Ys proofs
                 (sendPaymentResponse\<lparr>ps_PaymentStatus := lightning_Failed\<rparr>) m1)"

definition MeltTokens ::
  "Env \<Rightarrow> string \<Rightarrow> string \<Rightarrow> Proof list \<Rightarrow> Mint \<Rightarrow> (error + MeltQuote) \<times> Mint" where
  "MeltTokens env method quoteId proofs m =
     (case proofs_Ys env proofs of
        None \<Rightarrow> (Inl InvalidProofErr, m)
      | Some Ys \<Rightarrow>
     (let proofsAmount = foldl (\<lambda>a proof. a + p_Amount proof) 0 proofs
      in if method \<noteq> BOLT11_METHOD then (Inl PaymentMethodNotSupportedErr, m)
         else case on_db (GetMeltQuote quoteId) m of
           (Inl _, m1) \<Rightarrow> (Inl QuoteNotExistErr, m1)
         | (Inr meltQuote, m1) \<Rightarrow>
             if lq_State meltQuote = nut05_Paid then (Inl MeltQuoteAlreadyPaid, m1)
             else if lq_State meltQuote = nut05_Pending then (Inl MeltQuotePending, m1)
             else case verifyProofs env proofs Ys m1 of
               (Some err, m2) \<Rightarrow> (Inl err, m2)
             | (None, m2) \<Rightarrow>
     (let fees = TransactionFees m2 proofs
      in if proofsAmount < lq_Amount meltQuote + lq_FeeReserve meltQuote + fees
         then (Inl InsufficientProofsAmount, m2)
         else if ProofsSigAll env proofs then (Inl SigAllOnlySwap, m2)
         else case on_db (AddPendingProofs env proofs (lq_Id meltQuote)) m2 of
           (Inl _, m3) \<Rightarrow> (Inl (BuildCashuError DBErrCode), m3)
         | (Inr _, m3) \<Rightarrow>
     (let meltQuote = meltQuote\<lparr>lq_State := nut05_Pending\<rparr>
      in case on_db (UpdateMeltQuote (lq_Id meltQuote) [] nut05_Pending) m3 of
           (Inl _, m4) \<Rightarrow> (Inl (BuildCashuError DBErrCode), m4)
         | (Inr _, m4) \<Rightarrow>
             (case on_db (GetMintQuoteByPaymentHash (lq_PaymentHash meltQuote)) m4 of
                (Inr mintQuote, m5) \<Rightarrow> MeltTokens_internal env mintQuote meltQuote Ys proofs m5
              | (Inl _, m5) \<Rightarrow> MeltTokens_external env meltQuote Ys proofs m5)))))"

section \<open>Restore (RestoreSignatures)\<close>

fun RestoreSignatures ::
  "BlindedMessage list \<Rightarrow> Mint \<Rightarrow> (error + BlindedMessage list \<times> BlindedSignature list) \<times> Mint" where
  "RestoreSignatures [] m = (Inr ([], []), m)"
| "RestoreSignatures (bm # rest) m =
     (case on_db (GetBlindSignature (bm_B' bm)) m of
        (Inl ErrNoRows, m1) \<Rightarrow> RestoreSignatures rest m1
      | (Inl ErrDriver, m1) \<Rightarrow> (Inl (BuildCashuError DBErrCode), m1)
      | (Inr sig, m1) \<Rightarrow>
          (case RestoreSignatures rest m1 of
             (Inl err, m2) \<Rightarrow> (Inl err, m2)
           | (Inr (outputs, signatures), m2) \<Rightarrow> (Inr (bm # outputs, sig # signatures), m2)))"


section \<open>A concrete mint for evaluating the model\<close>

text \<open>
  Stand-ins for the functions of the crypto, nut10 and nut11 packages, used only where a
  statement is evaluated at a concrete input. Hashing to the curve fails on the empty
  secret only; a proof verifies when its \<open>C\<close> is \<open>C\<close> followed by its secret; a signature
  of a key over a hash is the key followed by the hash, and a witness holds one
  signature. A secret starting with \<open>p2pk\<close> is a P2PK secret whose data key is \<open>A\<close> and
  whose tags follow from the rest of the secret. Every invoice decodes to 4000 msat;
  the invoice \<open>lnbc1\<close> has the payment hash \<open>hq1\<close>.
\<close>

definition ex_tags :: "string \<Rightarrow> string list list" where
  "ex_tags s =
     (if s = ''p2pk-pubkeys'' then [[''pubkeys'', ''B'']]
      else if s = ''p2pk-multisig'' then [[''pubkeys'', ''B''], [''n_sigs'', ''2'']]
      else if s = ''p2pk-locktime'' then [[''locktime'', ''500'']]
      else if s = ''p2pk-refund'' then [[''locktime'', ''500''], [''refund'', ''R'']]
      else [])"

definition ex_env :: Env where
  "ex_env =
     \<lparr>HashToCurve = (\<lambda>s. if s = [] then None else Some (CHR ''Y'' # s)),
      Verify = (\<lambda>secret k C. C = CHR ''C'' # secret),
      DecodeString = (\<lambda>s. Some s),
      ParsePubKey = (\<lambda>b. if b = [] then None else Some b),
      SignBlindedMessage = (\<lambda>B k. CHR ''S'' # B),
      GenerateDLEQ = (\<lambda>k B C. (''e'', ''s'')),
      Sum256 = (\<lambda>s. CHR ''H'' # s),
      DeserializeSecret = (\<lambda>s. if take 4 s = ''p2pk''
         then Some \<lparr>wks_Nonce = ''n'', wks_Data = ''A'', wks_Tags = ex_tags s\<rparr> else None),
      UnmarshalWitness = (\<lambda>w. if w = [] then None else Some [w]),
      IsSecretP2PK = (\<lambda>p. take 4 (p_Secret p) = ''p2pk''),
      ProofsSigAll = (\<lambda>ps. False),
      IsSigAll = (\<lambda>s. False),
      ParseP2PKTags = (\<lambda>tags. Inr
         \<lparr>tags_Sigflag = [],
          tags_NSigs = (if [''n_sigs'', ''2''] \<in> set tags then 2 else 0),
          tags_Pubkeys = concat (map tl (filter (\<lambda>t. take 1 t = [''pubkeys'']) tags)),
          tags_Locktime = (if [''locktime'', ''500''] \<in> set tags then 500 else 0),
          tags_Refund = concat (map tl (filter (\<lambda>t. take 1 t = [''refund'']) tags))\<rparr>),
      ParsePublicKey = (\<lambda>s. Inr s),
      PublicKeys = (\<lambda>s. Inr [wks_Data s]),
      HasValidSignatures = (\<lambda>h sigs n keys. n \<le> int (length (filter (\<lambda>k. k @ h \<in> set sigs) keys))),
      Decodepay = (\<lambda>r. Some \<lparr>b11_MSatoshi = 4000,
         b11_PaymentHash = (if r = ''lnbc1'' then ''hq1'' else CHR ''h'' # r)\<rparr>),
      GenerateRandomQuoteId = Some ''melt2'',
      Now = 1000\<rparr>"

definition ex_keyset :: "u64 \<Rightarrow> MintKeyset" where
  "ex_keyset fee = \<lparr>ks_Id = ''ks1'', ks_Active = True,
                     ks_Keys = [(1, 11), (2, 12), (4, 13), (9223372036854775808, 74)],
                     ks_InputFeePpk = fee\<rparr>"

definition ex_ln ::
  "PaymentStatus \<times> string option \<Rightarrow> PaymentStatus \<times> string option \<Rightarrow> LightningClient" where
  "ex_ln sent probed =
     \<lparr>ln_InvoiceStatus = (\<lambda>h. (\<lparr>inv_PaymentRequest = ''lnbc1'', inv_PaymentHash = h,
          inv_Preimage = ''preimage'', inv_Settled = True, inv_Amount = 1000, inv_Expiry = 0\<rparr>, None)),
      ln_SendPayment = (\<lambda>r a. sent),
      ln_OutgoingPaymentStatus = (\<lambda>h. probed),
      ln_FeeReserve = (\<lambda>a. a div 100),
      ln_calls = []\<rparr>"

definition ex_failed :: "PaymentStatus \<times> string option" where
  "ex_failed = (\<lparr>ps_Preimage = [], ps_PaymentStatus = lightning_Failed\<rparr>, None)"

definition ex_succeeded :: "PaymentStatus \<times> string option" where
  "ex_succeeded = (\<lparr>ps_Preimage = ''paid'', ps_PaymentStatus = lightning_Succeeded\<rparr>, None)"

definition ex_mint_quote :: "nut04_State \<Rightarrow> MintQuote" where
  "ex_mint_quote st = \<lparr>mq_Id = ''q1'', mq_Amount = 1000, mq_PaymentRequest = ''lnbc1'',
                       mq_PaymentHash = ''hq1'', mq_State = st, mq_Expiry = 0\<rparr>"

definition ex_melt_quote :: "string \<Rightarrow> MeltQuote" where
  "ex_melt_quote h = \<lparr>lq_Id = ''melt1'', lq_InvoiceRequest = ''lnbc2'', lq_PaymentHash = h,
                      lq_Amount = 4, lq_FeeReserve = 0, lq_State = nut05_Unpaid, lq_Expiry = 0,
                      lq_Preimage = []\<rparr>"

definition ex_db :: "MintQuote list \<Rightarrow> MeltQuote list \<Rightarrow> bool list \<Rightarrow> MintDB" where
  "ex_db mqs lqs faults = \<lparr>mint_quotes = mqs, melt_quotes = lqs, pending_proofs = [], used_proofs = [],
                           blind_signatures = [], db_faults = faults\<rparr>"

definition ex_mint :: "MintDB \<Rightarrow> LightningClient \<Rightarrow> u64 \<Rightarrow> Mint" where
  "ex_mint d ln fee =
     \<lparr>db = d, activeKeysets = [(''ks1'', ex_keyset fee)], keysets = [(''ks1'', ex_keyset fee)],
      lightningClient = ln,
      limits = \<lparr>MaxBalance = 0, MintingSettings = \<lparr>MinAmount = 0, MaxAmount = 0\<rparr>,
                MeltingSettings = \<lparr>MinAmount = 0, MaxAmount = 0\<rparr>\<rparr>\<rparr>"

text \<open>A mint whose only mint quote \<open>q1\<close> (1000 sat) is in the given state.\<close>

definition ex_mint_q :: "nut04_State \<Rightarrow> Mint" where
  "ex_mint_q st = ex_mint (ex_db [ex_mint_quote st] [] []) (ex_ln ex_succeeded ex_failed) 100"

definition ex_bm :: "u64 \<Rightarrow> string \<Rightarrow> BlindedMessage" where
  "ex_bm a b = \<lparr>bm_Amount = a, bm_B' = b, bm_Id = ''ks1'', bm_Witness = []\<rparr>"

definition ex_proof :: "u64 \<Rightarrow> string \<Rightarrow> Proof" where
  "ex_proof a secret = \<lparr>p_Amount = a, p_Id = ''ks1'', p_Secret = secret, p_C = CHR ''C'' # secret,
                        p_Witness = []\<rparr>"

definition ex_sig :: "u64 \<Rightarrow> string \<Rightarrow> BlindedSignature" where
  "ex_sig a b = \<lparr>sig_Amount = a, sig_C' = CHR ''S'' # b, sig_Id = ''ks1'',
                  sig_DLEQ_E = ''e'', sig_DLEQ_S = ''s''\<rparr>"

text \<open>The mint after quote \<open>q1\<close> was issued against the outputs \<open>B1\<close> (1 sat) and \<open>B2\<close> (2 sat).\<close>

definition ex_mint_signed :: Mint where
  "ex_mint_signed =
     ex_mint ((ex_db [ex_mint_quote nut04_Issued] [] [])
                \<lparr>blind_signatures := [(''B1'', ex_sig 1 ''B1''), (''B2'', ex_sig 2 ''B2'')]\<rparr>)
       (ex_ln ex_succeeded ex_failed) 100"

text \<open>A mint whose only melt quote \<open>melt1\<close> is in the given state.\<close>

definition ex_mint_l :: "nut05_State \<Rightarrow> Mint" where
  "ex_mint_l st =
     ex_mint (ex_db [] [(ex_melt_quote ''h1'')\<lparr>lq_State := st\<rparr>] []) (ex_ln ex_succeeded ex_failed) 100"

text \<open>A mint holding the given pending and spent proof rows, and the row of a secret.\<close>

definition ex_row :: "string \<Rightarrow> DBProof" where
  "ex_row secret = \<lparr>dbp_Y = CHR ''Y'' # secret, dbp_Amount = 1, dbp_Id = ''ks1'', dbp_Secret = secret,
                    dbp_C = CHR ''C'' # secret, dbp_MeltQuoteId = ''melt0''\<rparr>"

definition ex_mint_rows :: "DBProof list \<Rightarrow> DBProof list \<Rightarrow> Mint" where
  "ex_mint_rows pending used =
     ex_mint ((ex_db [] [] [])\<lparr>pending_proofs := pending, used_proofs := used\<rparr>)
       (ex_ln ex_succeeded ex_failed) 100"

text \<open>
  A mint with the given mint quotes, the melt quote \<open>melt1\<close> (4 sat, no fee reserve)
  for the given payment hash, and a keyset fee of 100 ppk; and two proofs worth 5 sat.
\<close>

definition ex_mint_melt :: "MintQuote list \<Rightarrow> string \<Rightarrow> bool list \<Rightarrow> LightningClient \<Rightarrow> Mint" where
  "ex_mint_melt mqs h faults ln = ex_mint (ex_db mqs [ex_melt_quote h] faults) ln 100"

definition ex_proofs :: "Proof list" where
  "ex_proofs = [ex_proof 4 ''s1'', ex_proof 1 ''s2'']"

section \<open>Facts about the repository calls\<close>

lemma db_call_tables:
  "mint_quotes (snd (db_call d)) = mint_quotes d"
  "melt_quotes (snd (db_call d)) = melt_quotes d"
  "pending_proofs (snd (db_call d)) = pending_proofs d"
  "used_proofs (snd (db_call d)) = used_proofs d"
  "blind_signatures (snd (db_call d)) = blind_signatures d"
  by (simp_all add: db_call_def split: list.splits)

lemma db_call_ok: "db_faults d = [] \<Longrightarrow> db_call d = (False, d)"
  by (simp add: db_call_def)

lemma db_ln_record: "db (ln_record c m) = db m"
  by (simp add: ln_record_def)

text \<open>What each call returns, whether or not the driver fails.\<close>

lemma on_db_GetMintQuote:
  "on_db (GetMintQuote quoteId) m =
     (if fst (db_call (db m)) then (Inl ErrDriver, m\<lparr>db := snd (db_call (db m))\<rparr>)
      else case find (\<lambda>q. mq_Id q = quoteId) (mint_quotes (db m)) of
             None \<Rightarrow> (Inl ErrNoRows, m\<lparr>db := snd (db_call (db m))\<rparr>)
           | Some q \<Rightarrow> (Inr q, m\<lparr>db := snd (db_call (db m))\<rparr>))"
proof -
  obtain f d' where c: "db_call (db m) = (f, d')" by (cases "db_call (db m)")
  have "mint_quotes d' = mint_quotes (db m)" using db_call_tables(1) [of "db m"] c by simp
  then show ?thesis using c by (simp add: on_db_def GetMintQuote_def split: option.splits)
qed

lemma on_db_GetBlindSignatures:
  "on_db (GetBlindSignatures B's) m =
     (if fst (db_call (db m)) then (Inl ErrDriver, m\<lparr>db := snd (db_call (db m))\<rparr>)
      else (Inr (map snd (filter (\<lambda>r. fst r \<in> set B's) (blind_signatures (db m)))),
            m\<lparr>db := snd (db_call (db m))\<rparr>))"
proof -
  obtain f d' where c: "db_call (db m) = (f, d')" by (cases "db_call (db m)")
  have "blind_signatures d' = blind_signatures (db m)" using db_call_tables(5) [of "db m"] c by simp
  then show ?thesis using c by (simp add: on_db_def GetBlindSignatures_def)
qed

lemma on_db_UpdateMintQuoteState:
  "on_db (UpdateMintQuoteState quoteId st) m =
     (if fst (db_call (db m)) then (Inl ErrDriver, m\<lparr>db := snd (db_call (db m))\<rparr>)
      else (Inr (), m\<lparr>db := (snd (db_call (db m)))\<lparr>mint_quotes :=
             map (\<lambda>q. if mq_Id q = quoteId then q\<lparr>mq_State := st\<rparr> else q) (mint_quotes (db m))\<rparr>\<rparr>))"
proof -
  obtain f d' where c: "db_call (db m) = (f, d')" by (cases "db_call (db m)")
  have "mint_quotes d' = mint_quotes (db m)" using db_call_tables(1) [of "db m"] c by simp
  then show ?thesis using c by (simp add: on_db_def UpdateMintQuoteState_def)
qed

lemma on_db_SaveBlindSignature:
  "on_db (SaveBlindSignature B' sig) m =
     (if fst (db_call (db m)) then (Inl ErrDriver, m\<lparr>db := snd (db_call (db m))\<rparr>)
      else (Inr (), m\<lparr>db := (snd (db_call (db m)))\<lparr>blind_signatures :=
             blind_signatures (db m) @ [(B', sig)]\<rparr>\<rparr>))"
proof -
  obtain f d' where c: "db_call (db m) = (f, d')" by (cases "db_call (db m)")
  have "blind_signatures d' = blind_signatures (db m)" using db_call_tables(5) [of "db m"] c by simp
  then show ?thesis using c by (simp add: on_db_def SaveBlindSignature_def)
qed

text \<open>The calls on a repository whose driver does not fail.\<close>

lemma GetMintQuote_ok:
  "db_faults (db m) = [] \<Longrightarrow>
   on_db (GetMintQuote quoteId) m =
     (case find (\<lambda>q. mq_Id q = quoteId) (mint_quotes (db m)) of
        None \<Rightarrow> (Inl ErrNoRows, m) | Some q \<Rightarrow> (Inr q, m))"
  by (simp add: on_db_def GetMintQuote_def db_call_ok split: option.splits)

lemma GetMintQuoteByPaymentHash_ok:
  "db_faults (db m) = [] \<Longrightarrow>
   on_db (GetMintQuoteByPaymentHash h) m =
     (case find (\<lambda>q. mq_PaymentHash q = h) (mint_quotes (db m)) of
        None \<Rightarrow> (Inl ErrNoRows, m) | Some q \<Rightarrow> (Inr q, m))"
  by (simp add: on_db_def GetMintQuoteByPaymentHash_def db_call_ok split: option.splits)

lemma UpdateMintQuoteState_ok:
  "db_faults (db m) = [] \<Longrightarrow>
   on_db (UpdateMintQuoteState quoteId st) m =
     (Inr (), m\<lparr>db := (db m)\<lparr>mint_quotes :=
        map (\<lambda>q. if mq_Id q = quoteId then q\<lparr>mq_State := st\<rparr> else q) (mint_quotes (db m))\<rparr>\<rparr>)"
  by (simp add: on_db_def UpdateMintQuoteState_def db_call_ok)

lemma SaveMeltQuote_ok:
  "db_faults (db m) = [] \<Longrightarrow>
   on_db (SaveMeltQuote q) m = (Inr (), m\<lparr>db := (db m)\<lparr>melt_quotes := melt_quotes (db m) @ [q]\<rparr>\<rparr>)"
  by (simp add: on_db_def SaveMeltQuote_def db_call_ok)

lemma GetMeltQuote_ok:
  "db_faults (db m) = [] \<Longrightarrow>
   on_db (GetMeltQuote quoteId) m =
     (case find (\<lambda>q. lq_Id q = quoteId) (melt_quotes (db m)) of
        None \<Rightarrow> (Inl ErrNoRows, m) | Some q \<Rightarrow> (Inr q, m))"
  by (simp add: on_db_def GetMeltQuote_def db_call_ok split: option.splits)

lemma UpdateMeltQuote_ok:
  "db_faults (db m) = [] \<Longrightarrow>
   on_db (UpdateMeltQuote quoteId preimage st) m =
     (Inr (), m\<lparr>db := (db m)\<lparr>melt_quotes :=
        map (\<lambda>q. if lq_Id q = quoteId then q\<lparr>lq_State := st, lq_Preimage := preimage\<rparr> else q)
          (melt_quotes (db m))\<rparr>\<rparr>)"
  by (simp add: on_db_def UpdateMeltQuote_def db_call_ok)

lemma SaveProofs_ok:
  "db_faults (db m) = [] \<Longrightarrow> db_rows env [] proofs = Some rs \<Longrightarrow>
   on_db (SaveProofs env proofs) m = (Inr (), m\<lparr>db := (db m)\<lparr>used_proofs := used_proofs (db m) @ rs\<rparr>\<rparr>)"
  by (simp add: on_db_def SaveProofs_def db_call_ok)

lemma GetProofsUsed_ok:
  "db_faults (db m) = [] \<Longrightarrow>
   on_db (GetProofsUsed Ys) m = (Inr (filter (\<lambda>r. dbp_Y r \<in> set Ys) (used_proofs (db m))), m)"
  by (simp add: on_db_def GetProofsUsed_def db_call_ok)

lemma AddPendingProofs_ok:
  "db_faults (db m) = [] \<Longrightarrow> db_rows env quoteId proofs = Some rs \<Longrightarrow>
   on_db (AddPendingProofs env proofs quoteId) m =
     (Inr (), m\<lparr>db := (db m)\<lparr>pending_proofs := pending_proofs (db m) @ rs\<rparr>\<rparr>)"
  by (simp add: on_db_def AddPendingProofs_def db_call_ok)

lemma GetPendingProofs_ok:
  "db_faults (db m) = [] \<Longrightarrow>
   on_db (GetPendingProofs Ys) m = (Inr (filter (\<lambda>r. dbp_Y r \<in> set Ys) (pending_proofs (db m))), m)"
  by (simp add: on_db_def GetPendingProofs_def db_call_ok)

lemma RemovePendingProofs_ok:
  "db_faults (db m) = [] \<Longrightarrow>
   on_db (RemovePendingProofs Ys) m =
     (Inr (), m\<lparr>db := (db m)\<lparr>pending_proofs :=
        filter (\<lambda>r. dbp_Y r \<notin> set Ys) (pending_proofs (db m))\<rparr>\<rparr>)"
  by (simp add: on_db_def RemovePendingProofs_def db_call_ok)

lemma GetBlindSignature_ok:
  "db_faults (db m) = [] \<Longrightarrow>
   on_db (GetBlindSignature B') m =
     (case map_of (blind_signatures (db m)) B' of
        None \<Rightarrow> (Inl ErrNoRows, m) | Some sig \<Rightarrow> (Inr sig, m))"
  by (simp add: on_db_def GetBlindSignature_def db_call_ok split: option.splits)

lemma GetBlindSignatures_ok:
  "db_faults (db m) = [] \<Longrightarrow>
   on_db (GetBlindSignatures B's) m =
     (Inr (map snd (filter (\<lambda>r. fst r \<in> set B's) (blind_signatures (db m)))), m)"
  by (simp add: on_db_def GetBlindSignatures_def db_call_ok)

lemmas db_ok =
  GetMintQuote_ok GetMintQuoteByPaymentHash_ok UpdateMintQuoteState_ok SaveMeltQuote_ok
  GetMeltQuote_ok UpdateMeltQuote_ok SaveProofs_ok GetProofsUsed_ok AddPendingProofs_ok
  GetPendingProofs_ok RemovePendingProofs_ok GetBlindSignature_ok GetBlindSignatures_ok

text \<open>Unfolding the concrete mint and the repository, for evaluation at an input.\<close>

lemmas ex_defs =
  ex_tags_def ex_env_def ex_keyset_def ex_ln_def ex_failed_def ex_succeeded_def ex_mint_quote_def
  ex_melt_quote_def ex_db_def ex_mint_def ex_mint_q_def ex_bm_def ex_proof_def
  ex_sig_def ex_mint_signed_def ex_mint_l_def ex_row_def ex_mint_rows_def ex_mint_melt_def ex_proofs_def
  BOLT11_METHOD_def SAT_UNIT_def QuoteExpiryMins_def

lemmas db_defs =
  on_db_def db_call_def db_row_def SaveMintQuote_def GetMintQuote_def GetMintQuoteByPaymentHash_def
  UpdateMintQuoteState_def SaveMeltQuote_def GetMeltQuote_def UpdateMeltQuote_def SaveProofs_def
  GetProofsUsed_def AddPendingProofs_def GetPendingProofs_def GetPendingProofsByQuote_def
  RemovePendingProofs_def SaveBlindSignature_def GetBlindSignature_def GetBlindSignatures_def

lemmas ln_defs = ln_record_def InvoiceStatus_def SendPayment_def OutgoingPaymentStatus_def FeeReserve_def

section \<open>MintTokens: a quote is issued once\<close>

lemma signBlindedMessages_mint_quotes:
  "signBlindedMessages env bms m = (r, m') \<Longrightarrow> mint_quotes (db m') = mint_quotes (db m)"
proof (induction bms arbitrary: m r m')
  case Nil
  then show ?case by simp
next
  case (Cons msg msgs)
  show ?case
    using Cons.prems Cons.IH
    by (fastforce simp: on_db_SaveBlindSignature db_call_tables Let_def
        split: option.splits if_splits prod.splits sum.splits)
qed

lemma find_update_state:
  "find (\<lambda>q. mq_Id q = i) xs = Some q \<Longrightarrow>
   find (\<lambda>q. mq_Id q = i) (map (\<lambda>q. if mq_Id q = i then q\<lparr>mq_State := st\<rparr> else q) xs)
     = Some (q\<lparr>mq_State := st\<rparr>)"
  by (induction xs) (auto split: if_splits)

lemma MintTokens_Issued:
  assumes "find (\<lambda>q. mq_Id q = quoteId) (mint_quotes (db m)) = Some q"
    and "mq_State q = nut04_Issued"
  shows "\<exists>m'. MintTokens env method quoteId bms m =
           (Inl (if method \<noteq> BOLT11_METHOD then PaymentMethodNotSupportedErr
                 else if fst (db_call (db m)) then QuoteNotExistErr
                 else MintQuoteAlreadyIssued), m')
          \<and> mint_quotes (db m') = mint_quotes (db m)
          \<and> blind_signatures (db m') = blind_signatures (db m)"
  using assms
  by (simp add: MintTokens_def on_db_GetMintQuote db_call_tables)

lemma MintTokens_InrE:
  assumes "MintTokens env method quoteId bms m = (Inr sigs, m')"
  shows "\<exists>q m1 m2 m3 m4. on_db (GetMintQuote quoteId) m = (Inr q, m1) \<and> db m2 = db m1
          \<and> on_db (GetBlindSignatures (map bm_B' bms)) m2 = (Inr [], m3)
          \<and> signBlindedMessages env bms m3 = (Inr sigs, m4)
          \<and> on_db (UpdateMintQuoteState (mq_Id q) nut04_Issued) m4 = (Inr (), m')"
  using assms
  apply (simp add: MintTokens_def Let_def InvoiceStatus_def
      split: if_splits prod.splits sum.splits option.splits)
   apply (metis db_ln_record)
  apply blast
  done

lemma MintTokens_success_Issued:
  assumes "MintTokens env method quoteId bms m = (Inr sigs, m')"
  shows "\<exists>q. find (\<lambda>q. mq_Id q = quoteId) (mint_quotes (db m')) = Some q \<and> mq_State q = nut04_Issued"
proof -
  from MintTokens_InrE [OF assms] obtain q m1 m2 m3 m4 where
    g: "on_db (GetMintQuote quoteId) m = (Inr q, m1)" and d: "db m2 = db m1"
    and b: "on_db (GetBlindSignatures (map bm_B' bms)) m2 = (Inr [], m3)"
    and s: "signBlindedMessages env bms m3 = (Inr sigs, m4)"
    and u: "on_db (UpdateMintQuoteState (mq_Id q) nut04_Issued) m4 = (Inr (), m')"
    by blast
  from g have f: "find (\<lambda>q. mq_Id q = quoteId) (mint_quotes (db m)) = Some q"
    and t1: "mint_quotes (db m1) = mint_quotes (db m)"
    by (auto simp: on_db_GetMintQuote db_call_tables split: if_splits option.splits)
  from f have i: "mq_Id q = quoteId" by (auto simp: find_Some_iff)
  from b have t3: "mint_quotes (db m3) = mint_quotes (db m2)"
    by (auto simp: on_db_GetBlindSignatures db_call_tables split: if_splits)
  have t4: "mint_quotes (db m4) = mint_quotes (db m3)"
    using signBlindedMessages_mint_quotes [OF s] .
  from u have t5: "mint_quotes (db m') =
      map (\<lambda>x. if mq_Id x = quoteId then x\<lparr>mq_State := nut04_Issued\<rparr> else x) (mint_quotes (db m4))"
    by (auto simp: on_db_UpdateMintQuoteState i split: if_splits)
  have "find (\<lambda>q. mq_Id q = quoteId) (mint_quotes (db m')) = Some (q\<lparr>mq_State := nut04_Issued\<rparr>)"
    using f by (simp add: t5 t4 t3 d t1 find_update_state)
  then show ?thesis by simp
qed

text \<open>
  Claim C1, as the code has it. While a mint quote is in state Issued, every
  \<open>MintTokens\<close> call for its id fails, produces no signatures and leaves the quote and
  signature tables as they were: the error is \<open>MintQuoteAlreadyIssued\<close> when the method is
  bolt11 and the repository returns the quote, \<open>PaymentMethodNotSupportedErr\<close> for any
  other method (the method is checked first), \<open>QuoteNotExistErr\<close> when the lookup fails.
  A \<open>MintTokens\<close> call that succeeds leaves the quote in state Issued, so the next call
  for the same id, whatever its method and outputs, fails.
\<close>

theorem MintTokens_at_most_once:
  "(find (\<lambda>q. mq_Id q = quoteId) (mint_quotes (db m)) = Some q \<and> mq_State q = nut04_Issued \<longrightarrow>
      (\<exists>m'. MintTokens env method quoteId bms m =
           (Inl (if method \<noteq> BOLT11_METHOD then PaymentMethodNotSupportedErr
                 else if fst (db_call (db m)) then QuoteNotExistErr
                 else MintQuoteAlreadyIssued), m')
          \<and> mint_quotes (db m') = mint_quotes (db m)
          \<and> blind_signatures (db m') = blind_signatures (db m)))
   \<and> (MintTokens env method quoteId bms m = (Inr sigs, m1) \<longrightarrow>
      (\<exists>q'. find (\<lambda>q. mq_Id q = quoteId) (mint_quotes (db m1)) = Some q' \<and> mq_State q' = nut04_Issued)
      \<and> (\<exists>e m2. MintTokens env method' quoteId bms' m1 = (Inl e, m2)))"
proof (intro conjI impI)
  assume "find (\<lambda>q. mq_Id q = quoteId) (mint_quotes (db m)) = Some q \<and> mq_State q = nut04_Issued"
  then show "\<exists>m'. MintTokens env method quoteId bms m =
           (Inl (if method \<noteq> BOLT11_METHOD then PaymentMethodNotSupportedErr
                 else if fst (db_call (db m)) then QuoteNotExistErr
                 else MintQuoteAlreadyIssued), m')
          \<and> mint_quotes (db m') = mint_quotes (db m)
          \<and> blind_signatures (db m') = blind_signatures (db m)"
    using MintTokens_Issued by blast
next
  assume s: "MintTokens env method quoteId bms m = (Inr sigs, m1)"
  show "\<exists>q'. find (\<lambda>q. mq_Id q = quoteId) (mint_quotes (db m1)) = Some q' \<and> mq_State q' = nut04_Issued"
    using MintTokens_success_Issued [OF s] .
  then show "\<exists>e m2. MintTokens env method' quoteId bms' m1 = (Inl e, m2)"
    using MintTokens_Issued by blast
qed

lemma ex_mint_tokens_run:
  "MintTokens ex_env BOLT11_METHOD ''q1'' [ex_bm 1 ''B1'', ex_bm 2 ''B2''] (ex_mint_q nut04_Paid) =
     (Inr [ex_sig 1 ''B1'', ex_sig 2 ''B2''], ex_mint_signed)"
  by (simp add: MintTokens_def ex_defs db_defs Let_def)

theorem MintTokens_at_most_once_witness:
  "MintTokens ex_env BOLT11_METHOD ''q1'' [ex_bm 4 ''B3''] (ex_mint_q nut04_Issued)
     = (Inl MintQuoteAlreadyIssued, ex_mint_q nut04_Issued)
   \<and> (\<exists>sigs m1. MintTokens ex_env BOLT11_METHOD ''q1'' [ex_bm 1 ''B1'', ex_bm 2 ''B2''] (ex_mint_q nut04_Paid)
                  = (Inr sigs, m1)
        \<and> (\<exists>q'. find (\<lambda>q. mq_Id q = ''q1'') (mint_quotes (db m1)) = Some q' \<and> mq_State q' = nut04_Issued)
        \<and> (\<exists>e m2. MintTokens ex_env BOLT11_METHOD ''q1'' [ex_bm 4 ''B3''] m1 = (Inl e, m2)))"
proof (intro conjI)
  have f: "find (\<lambda>q. mq_Id q = ''q1'') (mint_quotes (db (ex_mint_q nut04_Issued)))
        = Some (ex_mint_quote nut04_Issued) \<and> mq_State (ex_mint_quote nut04_Issued) = nut04_Issued"
    by (simp add: ex_defs)
  have n: "\<not> fst (db_call (db (ex_mint_q nut04_Issued)))"
    by (simp add: ex_defs db_call_def)
  from MintTokens_at_most_once [of "''q1''" "ex_mint_q nut04_Issued" "ex_mint_quote nut04_Issued"
      ex_env BOLT11_METHOD "[ex_bm 4 ''B3'']"] f n
  have "\<exists>m'. MintTokens ex_env BOLT11_METHOD ''q1'' [ex_bm 4 ''B3''] (ex_mint_q nut04_Issued)
          = (Inl MintQuoteAlreadyIssued, m')"
    by fastforce
  then show "MintTokens ex_env BOLT11_METHOD ''q1'' [ex_bm 4 ''B3''] (ex_mint_q nut04_Issued)
     = (Inl MintQuoteAlreadyIssued, ex_mint_q nut04_Issued)"
    by (auto simp: MintTokens_def ex_defs db_defs)
next
  show "\<exists>sigs m1. MintTokens ex_env BOLT11_METHOD ''q1'' [ex_bm 1 ''B1'', ex_bm 2 ''B2''] (ex_mint_q nut04_Paid)
                  = (Inr sigs, m1)
        \<and> (\<exists>q'. find (\<lambda>q. mq_Id q = ''q1'') (mint_quotes (db m1)) = Some q' \<and> mq_State q' = nut04_Issued)
        \<and> (\<exists>e m2. MintTokens ex_env BOLT11_METHOD ''q1'' [ex_bm 4 ''B3''] m1 = (Inl e, m2))"
    using MintTokens_at_most_once [of "''q1''" "ex_mint_q nut04_Paid" _ ex_env BOLT11_METHOD
        "[ex_bm 1 ''B1'', ex_bm 2 ''B2'']" _ _ BOLT11_METHOD "[ex_bm 4 ''B3'']"]
      ex_mint_tokens_run
    by blast
qed

text \<open>
  Claim C1 as it is written fails on the method guard: on a quote in state Issued, a
  call whose method is not bolt11 returns \<open>PaymentMethodNotSupportedErr\<close>, not
  \<open>MintQuoteAlreadyIssued\<close>.
\<close>

theorem MintTokens_issued_other_method:
  "find (\<lambda>q. mq_Id q = ''q1'') (mint_quotes (db (ex_mint_q nut04_Issued))) = Some (ex_mint_quote nut04_Issued)
   \<and> mq_State (ex_mint_quote nut04_Issued) = nut04_Issued
   \<and> MintTokens ex_env ''bolt12'' ''q1'' [] (ex_mint_q nut04_Issued)
       = (Inl PaymentMethodNotSupportedErr, ex_mint_q nut04_Issued)
   \<and> PaymentMethodNotSupportedErr \<noteq> MintQuoteAlreadyIssued"
  by (simp add: MintTokens_def ex_defs)

section \<open>MintTokens: the overflow check and empty outputs\<close>

text \<open>
  Claim C5 at a concrete input. Three blinded messages of \<open>2^63\<close> each sum to
  \<open>3 * 2^63\<close>, above \<open>2^64 - 1\<close>; the u64 sum wraps to \<open>2^63\<close>, which is not below any
  single amount, so the check at lines 317-323 does not fire. On the quote of 1000 sat
  the call fails with \<open>OutputsOverQuoteAmountErr\<close>, not \<open>InvalidBlindedMessageAmount\<close>;
  on a quote of \<open>2^63\<close> sat it succeeds and returns three signatures.
\<close>

theorem MintTokens_overflow_not_detected:
  "sum_list (map (\<lambda>bm. unat (bm_Amount bm))
     [ex_bm 9223372036854775808 ''B1'', ex_bm 9223372036854775808 ''B2'',
      ex_bm 9223372036854775808 ''B3'']) = 3 * 2 ^ 63
   \<and> (2 ^ 64 - 1 :: nat) < 3 * 2 ^ 63
   \<and> MintTokens ex_env BOLT11_METHOD ''q1''
       [ex_bm 9223372036854775808 ''B1'', ex_bm 9223372036854775808 ''B2'',
        ex_bm 9223372036854775808 ''B3''] (ex_mint_q nut04_Paid)
       = (Inl OutputsOverQuoteAmountErr, ex_mint_q nut04_Paid)
   \<and> fst (MintTokens ex_env BOLT11_METHOD ''q1''
       [ex_bm 9223372036854775808 ''B1'', ex_bm 9223372036854775808 ''B2'',
        ex_bm 9223372036854775808 ''B3'']
       (ex_mint (ex_db [(ex_mint_quote nut04_Paid)\<lparr>mq_Amount := 9223372036854775808\<rparr>] [] [])
          (ex_ln ex_succeeded ex_failed) 100))
       = Inr [\<lparr>sig_Amount = 9223372036854775808, sig_C' = ''SB1'', sig_Id = ''ks1'',
               sig_DLEQ_E = ''e'', sig_DLEQ_S = ''s''\<rparr>,
              \<lparr>sig_Amount = 9223372036854775808, sig_C' = ''SB2'', sig_Id = ''ks1'',
               sig_DLEQ_E = ''e'', sig_DLEQ_S = ''s''\<rparr>,
              \<lparr>sig_Amount = 9223372036854775808, sig_C' = ''SB3'', sig_Id = ''ks1'',
               sig_DLEQ_E = ''e'', sig_DLEQ_S = ''s''\<rparr>]"
proof (intro conjI)
  show "sum_list (map (\<lambda>bm. unat (bm_Amount bm))
     [ex_bm 9223372036854775808 ''B1'', ex_bm 9223372036854775808 ''B2'',
      ex_bm 9223372036854775808 ''B3'']) = 3 * 2 ^ 63"
    by (simp add: ex_bm_def)
  show "(2 ^ 64 - 1 :: nat) < 3 * 2 ^ 63"
    by simp
  show "MintTokens ex_env BOLT11_METHOD ''q1''
       [ex_bm 9223372036854775808 ''B1'', ex_bm 9223372036854775808 ''B2'',
        ex_bm 9223372036854775808 ''B3''] (ex_mint_q nut04_Paid)
       = (Inl OutputsOverQuoteAmountErr, ex_mint_q nut04_Paid)"
    by (simp add: MintTokens_def ex_defs db_defs Let_def)
  show "fst (MintTokens ex_env BOLT11_METHOD ''q1''
       [ex_bm 9223372036854775808 ''B1'', ex_bm 9223372036854775808 ''B2'',
        ex_bm 9223372036854775808 ''B3'']
       (ex_mint (ex_db [(ex_mint_quote nut04_Paid)\<lparr>mq_Amount := 9223372036854775808\<rparr>] [] [])
          (ex_ln ex_succeeded ex_failed) 100))
       = Inr [\<lparr>sig_Amount = 9223372036854775808, sig_C' = ''SB1'', sig_Id = ''ks1'',
               sig_DLEQ_E = ''e'', sig_DLEQ_S = ''s''\<rparr>,
              \<lparr>sig_Amount = 9223372036854775808, sig_C' = ''SB2'', sig_Id = ''ks1'',
               sig_DLEQ_E = ''e'', sig_DLEQ_S = ''s''\<rparr>,
              \<lparr>sig_Amount = 9223372036854775808, sig_C' = ''SB3'', sig_Id = ''ks1'',
               sig_DLEQ_E = ''e'', sig_DLEQ_S = ''s''\<rparr>]"
    by (simp add: MintTokens_def ex_defs db_defs Let_def)
qed





section \<open>RestoreSignatures\<close>

lemma RestoreSignatures_ok:
  assumes "db_faults (db m) = []"
  shows "RestoreSignatures bms m =
     (Inr (filter (\<lambda>bm. map_of (blind_signatures (db m)) (bm_B' bm) \<noteq> None) bms,
           map (\<lambda>bm. the (map_of (blind_signatures (db m)) (bm_B' bm)))
             (filter (\<lambda>bm. map_of (blind_signatures (db m)) (bm_B' bm) \<noteq> None) bms)), m)"
proof (induction bms)
  case Nil
  show ?case by simp
next
  case (Cons bm rest)
  show ?case
  proof (cases "map_of (blind_signatures (db m)) (bm_B' bm)")
    case None
    then show ?thesis using assms Cons.IH by (simp add: GetBlindSignature_ok)
  next
    case (Some sig)
    then show ?thesis using assms Cons.IH by (simp add: GetBlindSignature_ok)
  qed
qed

text \<open>
  Claim C8. With a repository that answers, \<open>RestoreSignatures\<close> returns exactly the
  submitted messages whose \<open>B_\<close> is a key of the signature table, in their input order,
  each paired with the signature stored under its \<open>B_\<close>; it changes nothing, and run
  again on the returned outputs it returns the same outputs and signatures.
\<close>

theorem RestoreSignatures_idempotent:
  assumes "db_faults (db m) = []"
  shows "\<exists>outputs signatures.
           RestoreSignatures blindedMessages m = (Inr (outputs, signatures), m)
         \<and> outputs = filter (\<lambda>bm. bm_B' bm \<in> fst ` set (blind_signatures (db m))) blindedMessages
         \<and> map Some signatures = map (\<lambda>bm. map_of (blind_signatures (db m)) (bm_B' bm)) outputs
         \<and> RestoreSignatures outputs m = (Inr (outputs, signatures), m)"
proof -
  let ?T = "blind_signatures (db m)"
  let ?P = "\<lambda>bm. map_of ?T (bm_B' bm) \<noteq> None"
  let ?outs = "filter ?P blindedMessages"
  let ?sigs = "map (\<lambda>bm. the (map_of ?T (bm_B' bm))) ?outs"
  have r: "RestoreSignatures blindedMessages m = (Inr (?outs, ?sigs), m)"
    using assms by (rule RestoreSignatures_ok)
  have k: "?P = (\<lambda>bm. bm_B' bm \<in> fst ` set ?T)"
    by (simp add: map_of_eq_None_iff)
  have o: "?outs = filter (\<lambda>bm. bm_B' bm \<in> fst ` set ?T) blindedMessages"
    by (simp only: k)
  have s: "map Some ?sigs = map (\<lambda>bm. map_of ?T (bm_B' bm)) ?outs"
    by (induction blindedMessages) auto
  have "RestoreSignatures ?outs m =
          (Inr (filter ?P ?outs, map (\<lambda>bm. the (map_of ?T (bm_B' bm))) (filter ?P ?outs)), m)"
    using assms by (rule RestoreSignatures_ok)
  then have i: "RestoreSignatures ?outs m = (Inr (?outs, ?sigs), m)"
    by simp
  show ?thesis using r o s i by blast
qed

theorem RestoreSignatures_idempotent_witness:
  "db_faults (db ex_mint_signed) = []
   \<and> RestoreSignatures [ex_bm 2 ''B2'', ex_bm 4 ''B3'', ex_bm 1 ''B1''] ex_mint_signed
       = (Inr ([ex_bm 2 ''B2'', ex_bm 1 ''B1''], [ex_sig 2 ''B2'', ex_sig 1 ''B1'']), ex_mint_signed)
   \<and> RestoreSignatures [ex_bm 2 ''B2'', ex_bm 1 ''B1''] ex_mint_signed
       = (Inr ([ex_bm 2 ''B2'', ex_bm 1 ''B1''], [ex_sig 2 ''B2'', ex_sig 1 ''B1'']), ex_mint_signed)"
proof -
  have f: "db_faults (db ex_mint_signed) = []"
    by (simp add: ex_defs)
  have t: "blind_signatures (db ex_mint_signed) = [(''B1'', ex_sig 1 ''B1''), (''B2'', ex_sig 2 ''B2'')]"
    by (simp add: ex_mint_signed_def ex_mint_def ex_db_def)
  from RestoreSignatures_idempotent [OF f, of "[ex_bm 2 ''B2'', ex_bm 4 ''B3'', ex_bm 1 ''B1'']"]
  obtain outputs signatures where
    r: "RestoreSignatures [ex_bm 2 ''B2'', ex_bm 4 ''B3'', ex_bm 1 ''B1''] ex_mint_signed
          = (Inr (outputs, signatures), ex_mint_signed)"
    and o: "outputs = filter (\<lambda>bm. bm_B' bm \<in> fst ` set (blind_signatures (db ex_mint_signed)))
                [ex_bm 2 ''B2'', ex_bm 4 ''B3'', ex_bm 1 ''B1'']"
    and s: "map Some signatures = map (\<lambda>bm. map_of (blind_signatures (db ex_mint_signed)) (bm_B' bm)) outputs"
    and i: "RestoreSignatures outputs ex_mint_signed = (Inr (outputs, signatures), ex_mint_signed)"
    by blast
  have o': "outputs = [ex_bm 2 ''B2'', ex_bm 1 ''B1'']"
    unfolding o t by (simp add: ex_bm_def)
  have "map Some signatures = [Some (ex_sig 2 ''B2''), Some (ex_sig 1 ''B1'')]"
    unfolding s o' t by (simp add: ex_bm_def)
  then have s': "signatures = [ex_sig 2 ''B2'', ex_sig 1 ''B1'']"
    by (auto simp: map_eq_Cons_conv)
  show ?thesis
    using f r i unfolding o' s' by simp
qed

section \<open>MeltTokens: the order of the first checks\<close>

lemma proofs_Ys_None_iff:
  "proofs_Ys env proofs = None \<longleftrightarrow> (\<exists>p\<in>set proofs. HashToCurve env (p_Secret p) = None)"
  by (induction proofs) (auto split: option.splits)

text \<open>
  Claim C9. \<open>MeltTokens\<close> hashes every secret to the curve before any other check: if
  one of them fails the result is \<open>InvalidProofErr\<close> whatever the method and the quote
  id are. When all secrets hash, a method other than bolt11 gives
  \<open>PaymentMethodNotSupportedErr\<close> whatever the quote id is; only for bolt11 is the quote
  looked up, an unknown id giving \<open>QuoteNotExistErr\<close> and a quote in state Paid or
  Pending giving \<open>MeltQuoteAlreadyPaid\<close> or \<open>MeltQuotePending\<close>. None of these
  rejections changes the mint.
\<close>

theorem MeltTokens_check_order:
  "((\<exists>p\<in>set proofs. HashToCurve env (p_Secret p) = None) \<longrightarrow>
      MeltTokens env method quoteId proofs m = (Inl InvalidProofErr, m))
   \<and> ((\<forall>p\<in>set proofs. HashToCurve env (p_Secret p) \<noteq> None) \<and> method \<noteq> BOLT11_METHOD \<longrightarrow>
      MeltTokens env method quoteId proofs m = (Inl PaymentMethodNotSupportedErr, m))
   \<and> ((\<forall>p\<in>set proofs. HashToCurve env (p_Secret p) \<noteq> None) \<and> method = BOLT11_METHOD
        \<and> db_faults (db m) = [] \<longrightarrow>
      (case find (\<lambda>q. lq_Id q = quoteId) (melt_quotes (db m)) of
         None \<Rightarrow> MeltTokens env method quoteId proofs m = (Inl QuoteNotExistErr, m)
       | Some q \<Rightarrow>
           (lq_State q = nut05_Paid \<longrightarrow>
              MeltTokens env method quoteId proofs m = (Inl MeltQuoteAlreadyPaid, m))
         \<and> (lq_State q = nut05_Pending \<longrightarrow>
              MeltTokens env method quoteId proofs m = (Inl MeltQuotePending, m))))"
proof (intro conjI impI)
  assume "\<exists>p\<in>set proofs. HashToCurve env (p_Secret p) = None"
  then have "proofs_Ys env proofs = None" by (simp add: proofs_Ys_None_iff)
  then show "MeltTokens env method quoteId proofs m = (Inl InvalidProofErr, m)"
    by (simp add: MeltTokens_def)
next
  assume a: "(\<forall>p\<in>set proofs. HashToCurve env (p_Secret p) \<noteq> None) \<and> method \<noteq> BOLT11_METHOD"
  then have "proofs_Ys env proofs \<noteq> None" by (simp add: proofs_Ys_None_iff)
  then obtain Ys where "proofs_Ys env proofs = Some Ys" by blast
  then show "MeltTokens env method quoteId proofs m = (Inl PaymentMethodNotSupportedErr, m)"
    using a by (simp add: MeltTokens_def)
next
  assume a: "(\<forall>p\<in>set proofs. HashToCurve env (p_Secret p) \<noteq> None) \<and> method = BOLT11_METHOD
        \<and> db_faults (db m) = []"
  then have "proofs_Ys env proofs \<noteq> None" by (simp add: proofs_Ys_None_iff)
  then obtain Ys where "proofs_Ys env proofs = Some Ys" by blast
  then show "case find (\<lambda>q. lq_Id q = quoteId) (melt_quotes (db m)) of
         None \<Rightarrow> MeltTokens env method quoteId proofs m = (Inl QuoteNotExistErr, m)
       | Some q \<Rightarrow>
           (lq_State q = nut05_Paid \<longrightarrow>
              MeltTokens env method quoteId proofs m = (Inl MeltQuoteAlreadyPaid, m))
         \<and> (lq_State q = nut05_Pending \<longrightarrow>
              MeltTokens env method quoteId proofs m = (Inl MeltQuotePending, m))"
    using a by (simp add: MeltTokens_def GetMeltQuote_ok split: option.splits)
qed

theorem MeltTokens_check_order_witness:
  "MeltTokens ex_env ''bolt12'' ''nope'' [ex_proof 1 ''s1'', ex_proof 2 []] (ex_mint_l nut05_Paid)
     = (Inl InvalidProofErr, ex_mint_l nut05_Paid)
   \<and> MeltTokens ex_env ''bolt12'' ''nope'' [ex_proof 1 ''s1''] (ex_mint_l nut05_Paid)
     = (Inl PaymentMethodNotSupportedErr, ex_mint_l nut05_Paid)
   \<and> MeltTokens ex_env BOLT11_METHOD ''nope'' [ex_proof 1 ''s1''] (ex_mint_l nut05_Paid)
     = (Inl QuoteNotExistErr, ex_mint_l nut05_Paid)
   \<and> MeltTokens ex_env BOLT11_METHOD ''melt1'' [ex_proof 1 ''s1''] (ex_mint_l nut05_Paid)
     = (Inl MeltQuoteAlreadyPaid, ex_mint_l nut05_Paid)
   \<and> MeltTokens ex_env BOLT11_METHOD ''melt1'' [ex_proof 1 ''s1''] (ex_mint_l nut05_Pending)
     = (Inl MeltQuotePending, ex_mint_l nut05_Pending)"
proof (intro conjI)
  show "MeltTokens ex_env ''bolt12'' ''nope'' [ex_proof 1 ''s1'', ex_proof 2 []] (ex_mint_l nut05_Paid)
     = (Inl InvalidProofErr, ex_mint_l nut05_Paid)"
    using MeltTokens_check_order [of "[ex_proof 1 ''s1'', ex_proof 2 []]" ex_env "''bolt12''" "''nope''"
        "ex_mint_l nut05_Paid"]
    by (simp add: ex_env_def ex_proof_def)
  show "MeltTokens ex_env ''bolt12'' ''nope'' [ex_proof 1 ''s1''] (ex_mint_l nut05_Paid)
     = (Inl PaymentMethodNotSupportedErr, ex_mint_l nut05_Paid)"
    using MeltTokens_check_order [of "[ex_proof 1 ''s1'']" ex_env "''bolt12''" "''nope''"
        "ex_mint_l nut05_Paid"]
    by (simp add: ex_env_def ex_proof_def BOLT11_METHOD_def)
  show "MeltTokens ex_env BOLT11_METHOD ''nope'' [ex_proof 1 ''s1''] (ex_mint_l nut05_Paid)
     = (Inl QuoteNotExistErr, ex_mint_l nut05_Paid)"
    using MeltTokens_check_order [of "[ex_proof 1 ''s1'']" ex_env BOLT11_METHOD "''nope''"
        "ex_mint_l nut05_Paid"]
    by (simp add: ex_env_def ex_proof_def ex_mint_l_def ex_mint_def ex_db_def ex_melt_quote_def)
  show "MeltTokens ex_env BOLT11_METHOD ''melt1'' [ex_proof 1 ''s1''] (ex_mint_l nut05_Paid)
     = (Inl MeltQuoteAlreadyPaid, ex_mint_l nut05_Paid)"
    using MeltTokens_check_order [of "[ex_proof 1 ''s1'']" ex_env BOLT11_METHOD "''melt1''"
        "ex_mint_l nut05_Paid"]
    by (simp add: ex_env_def ex_proof_def ex_mint_l_def ex_mint_def ex_db_def ex_melt_quote_def)
  show "MeltTokens ex_env BOLT11_METHOD ''melt1'' [ex_proof 1 ''s1''] (ex_mint_l nut05_Pending)
     = (Inl MeltQuotePending, ex_mint_l nut05_Pending)"
    using MeltTokens_check_order [of "[ex_proof 1 ''s1'']" ex_env BOLT11_METHOD "''melt1''"
        "ex_mint_l nut05_Pending"]
    by (simp add: ex_env_def ex_proof_def ex_mint_l_def ex_mint_def ex_db_def ex_melt_quote_def)
qed

section \<open>verifyProofs: the order of the rejections\<close>




section \<open>verifyP2PKLockedProof\<close>

text \<open>
  Claim C7, as the code has it. For a proof whose secret deserialises and whose tags
  parse, with \<open>sigs\<close> the signatures of its witness (none when the witness does not
  parse): if the locktime is positive and in the past, an empty refund list makes the
  proof spendable whatever the witness is, and a non-empty refund list asks for a
  non-empty witness and one valid signature of a refund key over \<open>SHA256(secret)\<close>.
  Otherwise the number of required signatures is \<open>max(1, n_sigs)\<close>, and the allowed keys
  are the data key alone when \<open>n_sigs\<close> is not positive, and the data key followed by the
  keys of the pubkeys tag when \<open>n_sigs\<close> is positive; a positive \<open>n_sigs\<close> with no pubkeys
  is rejected with \<open>EmptyPubkeysErr\<close>.
\<close>

theorem verifyP2PKLockedProof_conditions:
  assumes "DeserializeSecret env (p_Secret p) = Some secret"
    and "ParseP2PKTags env (wks_Tags secret) = Inr tags"
    and "sigs = (case UnmarshalWitness env (p_Witness p) of None \<Rightarrow> [] | Some s \<Rightarrow> s)"
  shows
  "(tags_Locktime tags > 0 \<and> Now env > tags_Locktime tags \<and> tags_Refund tags = [] \<longrightarrow>
      verifyP2PKLockedProof env p = None)
   \<and> (tags_Locktime tags > 0 \<and> Now env > tags_Locktime tags \<and> tags_Refund tags \<noteq> [] \<longrightarrow>
      verifyP2PKLockedProof env p =
        (if sigs = [] then Some InvalidWitness
         else if HasValidSignatures env (Sum256 env (p_Secret p)) sigs 1 (tags_Refund tags) then None
         else Some NotEnoughSignaturesErr))
   \<and> (\<not> (tags_Locktime tags > 0 \<and> Now env > tags_Locktime tags)
        \<and> ParsePublicKey env (wks_Data secret) = Inr pubkey \<longrightarrow>
      verifyP2PKLockedProof env p =
        (if tags_NSigs tags > 0 \<and> tags_Pubkeys tags = [] then Some EmptyPubkeysErr
         else if sigs = [] then Some InvalidWitness
         else if HasValidSignatures env (Sum256 env (p_Secret p)) sigs (max 1 (tags_NSigs tags))
                   (if tags_NSigs tags > 0 then pubkey # tags_Pubkeys tags else [pubkey])
              then None
         else Some NotEnoughSignaturesErr))"
proof -
  have m: "max 1 (tags_NSigs tags) = (if tags_NSigs tags > 0 then tags_NSigs tags else 1)"
    by simp
  show ?thesis
    using assms(1,2) unfolding assms(3) m
    by (simp add: verifyP2PKLockedProof_def Let_def)
qed

theorem verifyP2PKLockedProof_conditions_witness:
  "verifyP2PKLockedProof ex_env (ex_proof 1 ''p2pk-locktime'') = None
   \<and> verifyP2PKLockedProof ex_env (ex_proof 1 ''p2pk-refund'') = Some InvalidWitness
   \<and> verifyP2PKLockedProof ex_env ((ex_proof 1 ''p2pk-refund'')\<lparr>p_Witness := ''RHp2pk-refund''\<rparr>) = None
   \<and> verifyP2PKLockedProof ex_env ((ex_proof 1 ''p2pk-refund'')\<lparr>p_Witness := ''AHp2pk-refund''\<rparr>)
       = Some NotEnoughSignaturesErr
   \<and> verifyP2PKLockedProof ex_env ((ex_proof 1 ''p2pk-multisig'')\<lparr>p_Witness := ''AHp2pk-multisig''\<rparr>)
       = Some NotEnoughSignaturesErr
   \<and> verifyP2PKLockedProof ex_env ((ex_proof 1 ''p2pk'')\<lparr>p_Witness := ''AHp2pk''\<rparr>) = None"
proof -
  note t = verifyP2PKLockedProof_conditions [where env = ex_env, OF _ _ refl]
  have d: "DeserializeSecret ex_env s = Some \<lparr>wks_Nonce = ''n'', wks_Data = ''A'', wks_Tags = ex_tags s\<rparr>"
    if "take 4 s = ''p2pk''" for s
    using that by (simp add: ex_env_def)
  have g: "ParseP2PKTags ex_env tags = Inr
         \<lparr>tags_Sigflag = [],
          tags_NSigs = (if [''n_sigs'', ''2''] \<in> set tags then 2 else 0),
          tags_Pubkeys = concat (map tl (filter (\<lambda>t. take 1 t = [''pubkeys'']) tags)),
          tags_Locktime = (if [''locktime'', ''500''] \<in> set tags then 500 else 0),
          tags_Refund = concat (map tl (filter (\<lambda>t. take 1 t = [''refund'']) tags))\<rparr>" for tags
    by (simp add: ex_env_def)
  have k: "ParsePublicKey ex_env ''A'' = Inr ''A''"
    by (simp add: ex_env_def)
  have 1: "verifyP2PKLockedProof ex_env (ex_proof 1 ''p2pk-locktime'') = None"
    using t [of "ex_proof 1 ''p2pk-locktime''", OF d g] by (simp add: ex_defs)
  have 2: "verifyP2PKLockedProof ex_env (ex_proof 1 ''p2pk-refund'') = Some InvalidWitness"
    using t [of "ex_proof 1 ''p2pk-refund''", OF d g] by (simp add: ex_defs)
  have 3: "verifyP2PKLockedProof ex_env ((ex_proof 1 ''p2pk-refund'')\<lparr>p_Witness := ''RHp2pk-refund''\<rparr>) = None"
    using t [of "(ex_proof 1 ''p2pk-refund'')\<lparr>p_Witness := ''RHp2pk-refund''\<rparr>", OF d g]
    by (simp add: ex_defs)
  have 4: "verifyP2PKLockedProof ex_env ((ex_proof 1 ''p2pk-refund'')\<lparr>p_Witness := ''AHp2pk-refund''\<rparr>)
       = Some NotEnoughSignaturesErr"
    using t [of "(ex_proof 1 ''p2pk-refund'')\<lparr>p_Witness := ''AHp2pk-refund''\<rparr>", OF d g]
    by (simp add: ex_defs)
  have 5: "verifyP2PKLockedProof ex_env ((ex_proof 1 ''p2pk-multisig'')\<lparr>p_Witness := ''AHp2pk-multisig''\<rparr>)
       = Some NotEnoughSignaturesErr"
    using t [of "(ex_proof 1 ''p2pk-multisig'')\<lparr>p_Witness := ''AHp2pk-multisig''\<rparr>" _ _ "''A''", OF d g] k
    by (simp add: ex_defs)
  have 6: "verifyP2PKLockedProof ex_env ((ex_proof 1 ''p2pk'')\<lparr>p_Witness := ''AHp2pk''\<rparr>) = None"
    using t [of "(ex_proof 1 ''p2pk'')\<lparr>p_Witness := ''AHp2pk''\<rparr>" _ _ "''A''", OF d g] k
    by (simp add: ex_defs)
  show ?thesis
    using 1 2 3 4 5 6 by simp
qed

text \<open>
  Claim C7 as it is written fails when the secret has a pubkeys tag and no \<open>n_sigs\<close>:
  the claim allows the data key \<open>A\<close> and the tagged key \<open>B\<close> and asks for
  \<open>max(1, 0) = 1\<close> signature, which the witness signed by \<open>B\<close> provides, yet the code
  checks against the data key alone and rejects the proof.
\<close>

theorem verifyP2PKLockedProof_pubkeys_without_n_sigs:
  "DeserializeSecret ex_env ''p2pk-pubkeys''
     = Some \<lparr>wks_Nonce = ''n'', wks_Data = ''A'', wks_Tags = [[''pubkeys'', ''B'']]\<rparr>
   \<and> ParseP2PKTags ex_env [[''pubkeys'', ''B'']]
     = Inr \<lparr>tags_Sigflag = [], tags_NSigs = 0, tags_Pubkeys = [''B''], tags_Locktime = 0, tags_Refund = []\<rparr>
   \<and> UnmarshalWitness ex_env ''BHp2pk-pubkeys'' = Some [''BHp2pk-pubkeys'']
   \<and> HasValidSignatures ex_env (Sum256 ex_env ''p2pk-pubkeys'') [''BHp2pk-pubkeys''] (max 1 0) [''A'', ''B'']
   \<and> verifyP2PKLockedProof ex_env ((ex_proof 1 ''p2pk-pubkeys'')\<lparr>p_Witness := ''BHp2pk-pubkeys''\<rparr>)
       = Some NotEnoughSignaturesErr"
  by (simp add: verifyP2PKLockedProof_def ex_defs Let_def)

section \<open>TransactionFees and the fee check of Swap\<close>

lemma foldl_add_sum_list:
  "foldl (\<lambda>a x. a + f x) a xs = a + sum_list (map f xs)" for a :: u64
  by (induction xs arbitrary: a) (simp_all add: add.assoc)

lemma unat_sum_list:
  "sum_list (map unat ws) < 2 ^ 64 \<Longrightarrow> unat (sum_list ws) = sum_list (map unat ws)" for ws :: "u64 list"
proof (induction ws)
  case Nil
  show ?case by simp
next
  case (Cons w ws)
  then have "unat (sum_list ws) = sum_list (map unat ws)" by simp
  moreover have "unat w + sum_list (map unat ws) < 2 ^ LENGTH(64)" using Cons.prems by simp
  ultimately show ?case by (simp add: unat_add_lem [THEN iffD1])
qed

text \<open>
  The fee of a transaction is the ceiling of the summed \<open>InputFeePpk\<close> of the inputs'
  keysets over 1000, as long as the sum plus 999 fits a 64-bit \<open>uint\<close>. An input
  whose keyset id is unknown adds nothing.
\<close>

lemma TransactionFees_ceiling:
  assumes "sum_list (map (\<lambda>p. unat (case map_of (keysets m) (p_Id p) of
                                      None \<Rightarrow> 0 | Some keyset \<Rightarrow> ks_InputFeePpk keyset)) inputs) + 999 < 2 ^ 64"
  shows "unat (TransactionFees m inputs) =
           (sum_list (map (\<lambda>p. unat (case map_of (keysets m) (p_Id p) of
                                      None \<Rightarrow> 0 | Some keyset \<Rightarrow> ks_InputFeePpk keyset)) inputs) + 999) div 1000"
proof -
  let ?f = "\<lambda>p. case map_of (keysets m) (p_Id p) of None \<Rightarrow> 0 | Some keyset \<Rightarrow> ks_InputFeePpk keyset"
  have s: "sum_list (map unat (map ?f inputs)) = sum_list (map (\<lambda>p. unat (?f p)) inputs)"
    by (simp add: comp_def)
  have "sum_list (map unat (map ?f inputs)) < 2 ^ 64" using assms unfolding s by simp
  then have u: "unat (sum_list (map ?f inputs)) = sum_list (map (\<lambda>p. unat (?f p)) inputs)"
    using unat_sum_list [of "map ?f inputs"] s by simp
  have "unat (sum_list (map ?f inputs)) + unat (999 :: u64) < 2 ^ LENGTH(64)"
    using assms u by simp
  then have a: "unat (sum_list (map ?f inputs) + 999) = unat (sum_list (map ?f inputs)) + 999"
    by (simp add: unat_add_lem [THEN iffD1])
  have "TransactionFees m inputs = (sum_list (map ?f inputs) + 999) div 1000"
    by (simp add: TransactionFees_def foldl_add_sum_list)
  then show ?thesis
    by (simp add: unat_div a u)
qed

text \<open>
  Claim C6 at concrete inputs. The fee check of \<open>Swap\<close> (line 393) subtracts the fee
  from the input sum in u64. With a keyset fee of 2000 ppk, one valid proof of 1 sat
  carries a fee of 2: the sum of the inputs (1) is below the outputs (4) plus the fee
  (2), but \<open>1 - 2\<close> wraps to \<open>2^64 - 1\<close>, the check passes, and \<open>Swap\<close> signs the 4 sat
  output. With the fee of 100 ppk, a single input of amount 0 (fee 1) and no outputs
  passes the check the same way and is rejected later with \<open>InvalidProofErr\<close>.
\<close>

theorem Swap_fee_check_wraps:
  "TransactionFees (ex_mint (ex_db [] [] []) (ex_ln ex_succeeded ex_failed) 2000) [ex_proof 1 ''s1''] = 2
   \<and> unat (p_Amount (ex_proof 1 ''s1'')) < unat (bm_Amount (ex_bm 4 ''B9'')) + 2
   \<and> Swap ex_env [ex_proof 1 ''s1''] [ex_bm 4 ''B9'']
       (ex_mint (ex_db [] [] []) (ex_ln ex_succeeded ex_failed) 2000)
       = (Inr [ex_sig 4 ''B9''],
          ex_mint ((ex_db [] [] [])\<lparr>used_proofs := [(ex_row ''s1'')\<lparr>dbp_MeltQuoteId := []\<rparr>],
                                    blind_signatures := [(''B9'', ex_sig 4 ''B9'')]\<rparr>)
            (ex_ln ex_succeeded ex_failed) 2000)
   \<and> TransactionFees (ex_mint (ex_db [] [] []) (ex_ln ex_succeeded ex_failed) 100) [ex_proof 0 ''s1''] = 1
   \<and> Swap ex_env [ex_proof 0 ''s1''] []
       (ex_mint (ex_db [] [] []) (ex_ln ex_succeeded ex_failed) 100)
       = (Inl InvalidProofErr, ex_mint (ex_db [] [] []) (ex_ln ex_succeeded ex_failed) 100)"
proof (intro conjI)
  show "TransactionFees (ex_mint (ex_db [] [] []) (ex_ln ex_succeeded ex_failed) 2000) [ex_proof 1 ''s1''] = 2"
    by (simp add: TransactionFees_def ex_defs)
  show "unat (p_Amount (ex_proof 1 ''s1'')) < unat (bm_Amount (ex_bm 4 ''B9'')) + 2"
    by (simp add: ex_defs)
  show "Swap ex_env [ex_proof 1 ''s1''] [ex_bm 4 ''B9'']
       (ex_mint (ex_db [] [] []) (ex_ln ex_succeeded ex_failed) 2000)
       = (Inr [ex_sig 4 ''B9''],
          ex_mint ((ex_db [] [] [])\<lparr>used_proofs := [(ex_row ''s1'')\<lparr>dbp_MeltQuoteId := []\<rparr>],
                                    blind_signatures := [(''B9'', ex_sig 4 ''B9'')]\<rparr>)
            (ex_ln ex_succeeded ex_failed) 2000)"
    by (simp add: Swap_def TransactionFees_def verifyProofs_def CheckDuplicateProofs_def
        ex_defs db_defs Let_def)
  show "TransactionFees (ex_mint (ex_db [] [] []) (ex_ln ex_succeeded ex_failed) 100) [ex_proof 0 ''s1''] = 1"
    by (simp add: TransactionFees_def ex_defs)
  show "Swap ex_env [ex_proof 0 ''s1''] []
       (ex_mint (ex_db [] [] []) (ex_ln ex_succeeded ex_failed) 100)
       = (Inl InvalidProofErr, ex_mint (ex_db [] [] []) (ex_ln ex_succeeded ex_failed) 100)"
    by (simp add: Swap_def TransactionFees_def verifyProofs_def CheckDuplicateProofs_def
        ex_defs db_defs Let_def)
qed

section \<open>MeltTokens: locking the proofs\<close>

lemma db_rows_of_Ys:
  "proofs_Ys env proofs = Some Ys \<Longrightarrow>
   \<exists>rows. db_rows env quoteId proofs = Some rows \<and> map dbp_Y rows = Ys"
proof (induction proofs arbitrary: Ys)
  case Nil
  then show ?case by simp
next
  case (Cons p ps)
  then show ?case
    by (auto simp: db_row_def split: option.splits)
qed

lemma find_melt_update:
  "find (\<lambda>x. lq_Id x = i) xs = Some q \<Longrightarrow>
   find (\<lambda>x. lq_Id x = i)
     (map (\<lambda>x. if lq_Id x = i then x\<lparr>lq_State := st, lq_Preimage := pre\<rparr> else x) xs)
     = Some (q\<lparr>lq_State := st, lq_Preimage := pre\<rparr>)"
  by (induction xs) (auto split: if_splits)

lemma melt_update_twice:
  "map (\<lambda>x. if lq_Id x = i then x\<lparr>lq_State := st, lq_Preimage := pre\<rparr> else x)
     (map (\<lambda>x. if lq_Id x = i then x\<lparr>lq_State := st', lq_Preimage := pre'\<rparr> else x) xs)
   = map (\<lambda>x. if lq_Id x = i then x\<lparr>lq_State := st, lq_Preimage := pre\<rparr> else x) xs"
  by (induction xs) auto

lemma verifyProofs_None_tables:
  assumes "db_faults (db m) = []" and "verifyProofs env proofs Ys m = (None, m)"
  shows "filter (\<lambda>r. dbp_Y r \<in> set Ys) (pending_proofs (db m)) = []"
    and "filter (\<lambda>r. dbp_Y r \<in> set Ys) (used_proofs (db m)) = []"
  using assms
  by (auto simp: verifyProofs_def GetPendingProofs_ok GetProofsUsed_ok split: if_splits
      simp del: filter_empty_conv)

lemma filter_unlock:
  assumes "filter (\<lambda>r. dbp_Y r \<in> set Ys) pending = []" and "map dbp_Y rows = Ys"
  shows "filter (\<lambda>r. dbp_Y r \<notin> set Ys) (pending @ rows) = pending"
proof -
  have "\<forall>r\<in>set rows. dbp_Y r \<in> set Ys" using assms(2) by auto
  then have "filter (\<lambda>r. dbp_Y r \<notin> set Ys) rows = []" by (simp add: filter_empty_conv)
  moreover have "filter (\<lambda>r. dbp_Y r \<notin> set Ys) pending = pending"
    using assms(1) by (simp add: filter_empty_conv filter_id_conv)
  ultimately show ?thesis by simp
qed

text \<open>
  A \<open>MeltTokens\<close> call that passes every check reaches the payment step with the
  proofs added to the pending table and the quote set to Pending, and takes the
  internal branch exactly when a mint quote has the melt quote's payment hash.
\<close>

lemma MeltTokens_locked:
  assumes "db_faults (db m) = []"
    and "find (\<lambda>x. lq_Id x = quoteId) (melt_quotes (db m)) = Some meltQuote"
    and "lq_State meltQuote = nut05_Unpaid"
    and "proofs_Ys env proofs = Some Ys"
    and "verifyProofs env proofs Ys m = (None, m)"
    and "\<not> foldl (\<lambda>a p. a + p_Amount p) 0 proofs
            < lq_Amount meltQuote + lq_FeeReserve meltQuote + TransactionFees m proofs"
    and "\<not> ProofsSigAll env proofs"
    and "db_rows env quoteId proofs = Some rows"
    and "mL = m\<lparr>db := (db m)\<lparr>pending_proofs := pending_proofs (db m) @ rows,
                melt_quotes :=
                  map (\<lambda>x. if lq_Id x = quoteId then x\<lparr>lq_State := nut05_Pending, lq_Preimage := []\<rparr> else x)
                    (melt_quotes (db m))\<rparr>\<rparr>"
  shows "MeltTokens env BOLT11_METHOD quoteId proofs m =
     (case find (\<lambda>x. mq_PaymentHash x = lq_PaymentHash meltQuote) (mint_quotes (db m)) of
        Some mintQuote \<Rightarrow>
          MeltTokens_internal env mintQuote (meltQuote\<lparr>lq_State := nut05_Pending\<rparr>) Ys proofs mL
      | None \<Rightarrow> MeltTokens_external env (meltQuote\<lparr>lq_State := nut05_Pending\<rparr>) Ys proofs mL)"
proof -
  have i: "lq_Id meltQuote = quoteId" using assms(2) by (auto simp: find_Some_iff)
  have st: "lq_State meltQuote \<noteq> nut05_Paid" "lq_State meltQuote \<noteq> nut05_Pending"
    using assms(3) by simp_all
  show ?thesis
    using assms(1,2,4,5,6,7,8) st unfolding assms(9)
    by (simp add: MeltTokens_def db_ok i Let_def split: option.splits)
qed

lemma settleProofs_ok:
  "db_faults (db m) = [] \<Longrightarrow> db_rows env [] proofs = Some rs \<Longrightarrow>
   settleProofs env Ys proofs m =
     (None, m\<lparr>db := (db m)\<lparr>pending_proofs := filter (\<lambda>r. dbp_Y r \<notin> set Ys) (pending_proofs (db m)),
                           used_proofs := used_proofs (db m) @ rs\<rparr>\<rparr>)"
  by (simp add: settleProofs_def db_ok)

lemma ln_record_fields:
  "ln_SendPayment (lightningClient (ln_record c m)) = ln_SendPayment (lightningClient m)"
  "ln_OutgoingPaymentStatus (lightningClient (ln_record c m)) = ln_OutgoingPaymentStatus (lightningClient m)"
  "ln_InvoiceStatus (lightningClient (ln_record c m)) = ln_InvoiceStatus (lightningClient m)"
  "ln_calls (lightningClient (ln_record c m)) = ln_calls (lightningClient m) @ [c]"
  by (simp_all add: ln_record_def)

text \<open>The external branch, outcome by outcome, on a repository that answers.\<close>

lemma MeltTokens_external_payment_error:
  assumes "db_faults (db m) = []"
    and "ln_SendPayment (lightningClient m) (lq_InvoiceRequest q) (lq_Amount q) = (resp, Some msg)"
    and "Contains msg ''payment error''"
  shows "MeltTokens_external env q Ys proofs m =
     (Inr (q\<lparr>lq_State := nut05_Unpaid\<rparr>),
      (ln_record (CallSendPayment (lq_InvoiceRequest q) (lq_Amount q)) m)
        \<lparr>db := (db m)\<lparr>melt_quotes :=
            map (\<lambda>x. if lq_Id x = lq_Id q then x\<lparr>lq_State := nut05_Unpaid, lq_Preimage := []\<rparr> else x)
              (melt_quotes (db m)),
          pending_proofs := filter (\<lambda>r. dbp_Y r \<notin> set Ys) (pending_proofs (db m))\<rparr>\<rparr>)"
  using assms
  by (simp add: MeltTokens_external_def SendPayment_def db_ok db_ln_record Let_def)

lemma MeltTokens_external_switch:
  assumes "ln_SendPayment (lightningClient m) (lq_InvoiceRequest q) (lq_Amount q) = (resp, err)"
    and "\<forall>msg. err = Some msg \<longrightarrow> \<not> Contains msg ''payment error''"
  shows "MeltTokens_external env q Ys proofs m =
     MeltTokens_switch env q Ys proofs
       (if err = None then resp else resp\<lparr>ps_PaymentStatus := lightning_Failed\<rparr>)
       (ln_record (CallSendPayment (lq_InvoiceRequest q) (lq_Amount q)) m)"
  using assms
  by (cases err) (simp_all add: MeltTokens_external_def SendPayment_def)

lemma MeltTokens_switch_Succeeded:
  assumes "db_faults (db m) = []" and "db_rows env [] proofs = Some rs"
    and "ps_PaymentStatus resp = lightning_Succeeded"
  shows "MeltTokens_switch env q Ys proofs resp m =
     (Inr (q\<lparr>lq_State := nut05_Paid, lq_Preimage := ps_Preimage resp\<rparr>),
      m\<lparr>db := (db m)\<lparr>pending_proofs := filter (\<lambda>r. dbp_Y r \<notin> set Ys) (pending_proofs (db m)),
          used_proofs := used_proofs (db m) @ rs,
          melt_quotes :=
            map (\<lambda>x. if lq_Id x = lq_Id q then x\<lparr>lq_State := nut05_Paid, lq_Preimage := ps_Preimage resp\<rparr> else x)
              (melt_quotes (db m))\<rparr>\<rparr>)"
  using assms
  by (simp add: MeltTokens_switch_def settleProofs_ok db_ok Let_def)

lemma MeltTokens_switch_Pending:
  assumes "ps_PaymentStatus resp = lightning_Pending"
  shows "MeltTokens_switch env q Ys proofs resp m = (Inr q, m)"
  using assms by (simp add: MeltTokens_switch_def)

lemma MeltTokens_switch_Failed_Pending:
  assumes "ps_PaymentStatus resp = lightning_Failed"
    and "ln_OutgoingPaymentStatus (lightningClient m) (lq_PaymentHash q) = (pst, perr)"
    and "ps_PaymentStatus pst = lightning_Pending"
  shows "MeltTokens_switch env q Ys proofs resp m =
     (Inr q, ln_record (CallOutgoingPaymentStatus (lq_PaymentHash q)) m)"
  using assms by (simp add: MeltTokens_switch_def OutgoingPaymentStatus_def)

lemma MeltTokens_switch_Failed_Succeeded:
  assumes "db_faults (db m) = []" and "db_rows env [] proofs = Some rs"
    and "ps_PaymentStatus resp = lightning_Failed"
    and "ln_OutgoingPaymentStatus (lightningClient m) (lq_PaymentHash q) = (pst, perr)"
    and "ps_PaymentStatus pst = lightning_Succeeded"
  shows "\<exists>m'. MeltTokens_switch env q Ys proofs resp m =
           (Inr (q\<lparr>lq_State := nut05_Paid, lq_Preimage := ps_Preimage pst\<rparr>), m')
       \<and> melt_quotes (db m') =
            map (\<lambda>x. if lq_Id x = lq_Id q then x\<lparr>lq_State := nut05_Paid, lq_Preimage := ps_Preimage pst\<rparr> else x)
              (melt_quotes (db m))
       \<and> pending_proofs (db m') = filter (\<lambda>r. dbp_Y r \<notin> set Ys) (pending_proofs (db m))
       \<and> used_proofs (db m') = used_proofs (db m) @ rs
       \<and> mint_quotes (db m') = mint_quotes (db m)
       \<and> ln_calls (lightningClient m') =
            ln_calls (lightningClient m) @ [CallOutgoingPaymentStatus (lq_PaymentHash q)]"
  using assms
  by (cases perr)
    (simp_all add: MeltTokens_switch_def OutgoingPaymentStatus_def settleProofs_ok db_ok db_ln_record
      ln_record_fields melt_update_twice Let_def)

lemma MeltTokens_switch_Failed_Failed_error:
  assumes "db_faults (db m) = []"
    and "ps_PaymentStatus resp = lightning_Failed"
    and "ln_OutgoingPaymentStatus (lightningClient m) (lq_PaymentHash q) = (pst, Some msg)"
    and "ps_PaymentStatus pst = lightning_Failed"
  shows "MeltTokens_switch env q Ys proofs resp m =
     (Inr (q\<lparr>lq_State := nut05_Unpaid\<rparr>),
      (ln_record (CallOutgoingPaymentStatus (lq_PaymentHash q)) m)
        \<lparr>db := (db m)\<lparr>melt_quotes :=
            map (\<lambda>x. if lq_Id x = lq_Id q then x\<lparr>lq_State := nut05_Unpaid, lq_Preimage := []\<rparr> else x)
              (melt_quotes (db m)),
          pending_proofs := filter (\<lambda>r. dbp_Y r \<notin> set Ys) (pending_proofs (db m))\<rparr>\<rparr>)"
  using assms
  by (simp add: MeltTokens_switch_def OutgoingPaymentStatus_def db_ok db_ln_record Let_def)

lemma MeltTokens_switch_Failed_Failed_no_error:
  assumes "ps_PaymentStatus resp = lightning_Failed"
    and "ln_OutgoingPaymentStatus (lightningClient m) (lq_PaymentHash q) = (pst, None)"
    and "ps_PaymentStatus pst = lightning_Failed"
  shows "MeltTokens_switch env q Ys proofs resp m =
     (Inr q, ln_record (CallOutgoingPaymentStatus (lq_PaymentHash q)) m)"
  using assms by (simp add: MeltTokens_switch_def OutgoingPaymentStatus_def)

section \<open>MeltTokens: the outcome of the external payment\<close>

text \<open>
  Claim C3, as the code has it. Take a \<open>MeltTokens\<close> call that passes every check, on
  a repository that answers, with no mint quote for the payment hash, so that the
  backend is asked to pay. Write \<open>P\<close> and \<open>U\<close> for the pending and spent tables before
  the call, \<open>rows\<close> for the rows of the submitted proofs. The call returns the quote,
  and the quote, the pending table and the spent table end as follows.
  \<^item> \<open>SendPayment\<close> returns an error containing "payment error": quote Unpaid, pending
    table \<open>P\<close> (the proofs are unlocked), spent table \<open>U\<close>.
  \<^item> \<open>SendPayment\<close> returns no error and status Succeeded: quote Paid with the
    preimage, pending table \<open>P\<close>, the proofs added to the spent table.
  \<^item> \<open>SendPayment\<close> returns no error and status Pending: quote Pending, the proofs
    still pending.
  \<^item> Any other error, or status Failed: \<open>OutgoingPaymentStatus\<close> is asked. If it
    reports Pending the quote and proofs stay pending; if it reports Succeeded the
    quote is Paid with the probe's preimage and the proofs are spent; if it reports
    Failed together with an error the quote is Unpaid and the proofs are unlocked; if
    it reports Failed without an error, the quote stays Pending and the proofs stay
    pending.
  In every case the stored quote has the state of the returned one.
\<close>

theorem MeltTokens_payment_outcomes:
  assumes "db_faults (db m) = []"
    and "find (\<lambda>x. lq_Id x = quoteId) (melt_quotes (db m)) = Some meltQuote"
    and "lq_State meltQuote = nut05_Unpaid"
    and "proofs_Ys env proofs = Some Ys"
    and "verifyProofs env proofs Ys m = (None, m)"
    and "\<not> foldl (\<lambda>a p. a + p_Amount p) 0 proofs
            < lq_Amount meltQuote + lq_FeeReserve meltQuote + TransactionFees m proofs"
    and "\<not> ProofsSigAll env proofs"
    and "find (\<lambda>x. mq_PaymentHash x = lq_PaymentHash meltQuote) (mint_quotes (db m)) = None"
    and "db_rows env quoteId proofs = Some rows"
    and "db_rows env [] proofs = Some spent"
    and "ln_SendPayment (lightningClient m) (lq_InvoiceRequest meltQuote) (lq_Amount meltQuote) = (resp, err)"
    and "ln_OutgoingPaymentStatus (lightningClient m) (lq_PaymentHash meltQuote) = (pst, perr)"
  shows "\<exists>q' m'. MeltTokens env BOLT11_METHOD quoteId proofs m = (Inr q', m')
     \<and> find (\<lambda>x. lq_Id x = quoteId) (melt_quotes (db m')) =
          Some (meltQuote\<lparr>lq_State := lq_State q',
                          lq_Preimage := (if lq_State q' = nut05_Paid then lq_Preimage q' else [])\<rparr>)
     \<and> (q', pending_proofs (db m'), used_proofs (db m')) =
         (if \<exists>msg. err = Some msg \<and> Contains msg ''payment error''
          then (meltQuote\<lparr>lq_State := nut05_Unpaid\<rparr>, pending_proofs (db m), used_proofs (db m))
          else if err = None \<and> ps_PaymentStatus resp = lightning_Succeeded
          then (meltQuote\<lparr>lq_State := nut05_Paid, lq_Preimage := ps_Preimage resp\<rparr>,
                pending_proofs (db m), used_proofs (db m) @ spent)
          else if err = None \<and> ps_PaymentStatus resp = lightning_Pending
          then (meltQuote\<lparr>lq_State := nut05_Pending\<rparr>, pending_proofs (db m) @ rows, used_proofs (db m))
          else if ps_PaymentStatus pst = lightning_Pending
          then (meltQuote\<lparr>lq_State := nut05_Pending\<rparr>, pending_proofs (db m) @ rows, used_proofs (db m))
          else if ps_PaymentStatus pst = lightning_Succeeded
          then (meltQuote\<lparr>lq_State := nut05_Paid, lq_Preimage := ps_Preimage pst\<rparr>,
                pending_proofs (db m), used_proofs (db m) @ spent)
          else if perr \<noteq> None
          then (meltQuote\<lparr>lq_State := nut05_Unpaid\<rparr>, pending_proofs (db m), used_proofs (db m))
          else (meltQuote\<lparr>lq_State := nut05_Pending\<rparr>, pending_proofs (db m) @ rows, used_proofs (db m)))"
proof -
  let ?q = "meltQuote\<lparr>lq_State := nut05_Pending\<rparr>"
  let ?set = "\<lambda>st pre. map (\<lambda>x. if lq_Id x = quoteId then x\<lparr>lq_State := st, lq_Preimage := pre\<rparr> else x)"
  define mL where "mL = m\<lparr>db := (db m)\<lparr>pending_proofs := pending_proofs (db m) @ rows,
                melt_quotes := ?set nut05_Pending [] (melt_quotes (db m))\<rparr>\<rparr>"
  define mS where "mS = ln_record (CallSendPayment (lq_InvoiceRequest ?q) (lq_Amount ?q)) mL"
  have i: "lq_Id meltQuote = quoteId" using assms(2) by (auto simp: find_Some_iff)
  have nm: "find (\<lambda>x. mq_PaymentHash x = lq_PaymentHash meltQuote) (mint_quotes (db m)) = None"
    by (rule assms(8))
  have L: "MeltTokens env BOLT11_METHOD quoteId proofs m = MeltTokens_external env ?q Ys proofs mL"
    using MeltTokens_locked [OF assms(1-7) assms(9) mL_def] by (simp add: nm)
  have fL: "db_faults (db mL) = []" using assms(1) by (simp add: mL_def)
  have fS: "db_faults (db mS) = []" using fL by (simp add: mS_def db_ln_record)
  have spL: "ln_SendPayment (lightningClient mL) (lq_InvoiceRequest ?q) (lq_Amount ?q) = (resp, err)"
    using assms(11) by (simp add: mL_def)
  have prS: "ln_OutgoingPaymentStatus (lightningClient mS) (lq_PaymentHash ?q) = (pst, perr)"
    using assms(12) by (simp add: mS_def mL_def ln_record_fields)
  obtain rows' where "db_rows env quoteId proofs = Some rows'" and "map dbp_Y rows' = Ys"
    using db_rows_of_Ys [OF assms(4)] by blast
  then have ry: "map dbp_Y rows = Ys" using assms(9) by simp
  have unlock: "filter (\<lambda>r. dbp_Y r \<notin> set Ys) (pending_proofs (db m) @ rows) = pending_proofs (db m)"
    using verifyProofs_None_tables(1) [OF assms(1,5)] ry by (rule filter_unlock)
  have fq: "find (\<lambda>x. lq_Id x = quoteId) (?set st pre (melt_quotes (db m)))
      = Some (meltQuote\<lparr>lq_State := st, lq_Preimage := pre\<rparr>)" for st pre
    using assms(2) by (rule find_melt_update)
  have tabS: "pending_proofs (db mS) = pending_proofs (db m) @ rows"
    "used_proofs (db mS) = used_proofs (db m)"
    "melt_quotes (db mS) = ?set nut05_Pending [] (melt_quotes (db m))"
    by (simp_all add: mS_def mL_def db_ln_record)
  show ?thesis
  proof (cases "\<exists>msg. err = Some msg \<and> Contains msg ''payment error''")
    case True
    then obtain msg where e: "err = Some msg" and c: "Contains msg ''payment error''" by blast
    have "MeltTokens_external env ?q Ys proofs mL =
       (Inr (?q\<lparr>lq_State := nut05_Unpaid\<rparr>),
        (ln_record (CallSendPayment (lq_InvoiceRequest ?q) (lq_Amount ?q)) mL)
          \<lparr>db := (db mL)\<lparr>melt_quotes :=
              map (\<lambda>x. if lq_Id x = lq_Id ?q then x\<lparr>lq_State := nut05_Unpaid, lq_Preimage := []\<rparr> else x)
                (melt_quotes (db mL)),
            pending_proofs := filter (\<lambda>r. dbp_Y r \<notin> set Ys) (pending_proofs (db mL))\<rparr>\<rparr>)"
      using fL spL [unfolded e] c by (rule MeltTokens_external_payment_error)
    then show ?thesis
      unfolding L using True
      by (simp add: mL_def i melt_update_twice fq unlock del: map_map filter_append)
  next
    case False
    then have ne: "\<forall>msg. err = Some msg \<longrightarrow> \<not> Contains msg ''payment error''" by blast
    define resp' where "resp' = (if err = None then resp else resp\<lparr>ps_PaymentStatus := lightning_Failed\<rparr>)"
    have S: "MeltTokens env BOLT11_METHOD quoteId proofs m = MeltTokens_switch env ?q Ys proofs resp' mS"
      unfolding L resp'_def mS_def using spL ne by (rule MeltTokens_external_switch)
    show ?thesis
    proof (cases "ps_PaymentStatus resp'")
      case lightning_Succeeded
      then have c: "err = None \<and> ps_PaymentStatus resp = lightning_Succeeded"
        by (auto simp: resp'_def split: if_splits)
      have "MeltTokens_switch env ?q Ys proofs resp' mS =
        (Inr (?q\<lparr>lq_State := nut05_Paid, lq_Preimage := ps_Preimage resp'\<rparr>),
         mS\<lparr>db := (db mS)\<lparr>pending_proofs := filter (\<lambda>r. dbp_Y r \<notin> set Ys) (pending_proofs (db mS)),
          used_proofs := used_proofs (db mS) @ spent,
          melt_quotes :=
            map (\<lambda>x. if lq_Id x = lq_Id ?q then x\<lparr>lq_State := nut05_Paid, lq_Preimage := ps_Preimage resp'\<rparr> else x)
              (melt_quotes (db mS))\<rparr>\<rparr>)"
        using fS assms(10) lightning_Succeeded by (rule MeltTokens_switch_Succeeded)
      then show ?thesis
        unfolding S using False c
        by (simp add: tabS i melt_update_twice fq unlock resp'_def del: map_map filter_append)
    next
      case lightning_Pending
      then have c: "err = None \<and> ps_PaymentStatus resp = lightning_Pending"
        by (auto simp: resp'_def split: if_splits)
      have "MeltTokens_switch env ?q Ys proofs resp' mS = (Inr ?q, mS)"
        using lightning_Pending by (rule MeltTokens_switch_Pending)
      then show ?thesis
        unfolding S using False c by (simp add: tabS fq del: map_map filter_append)
    next
      case lightning_Failed
      then have c: "(err = None \<and> ps_PaymentStatus resp = lightning_Succeeded) = False"
        "(err = None \<and> ps_PaymentStatus resp = lightning_Pending) = False"
        "(\<exists>msg. err = Some msg \<and> Contains msg ''payment error'') = False"
        using False by (auto simp: resp'_def split: if_splits)
      show ?thesis
      proof (cases "ps_PaymentStatus pst")
        case lightning_Pending
        have "MeltTokens_switch env ?q Ys proofs resp' mS =
            (Inr ?q, ln_record (CallOutgoingPaymentStatus (lq_PaymentHash ?q)) mS)"
          using lightning_Failed prS lightning_Pending by (rule MeltTokens_switch_Failed_Pending)
        then show ?thesis
          unfolding S using lightning_Pending by (simp add: c tabS fq db_ln_record del: map_map filter_append)
      next
        case lightning_Succeeded
        from MeltTokens_switch_Failed_Succeeded [OF fS assms(10) lightning_Failed prS lightning_Succeeded,
            where Ys = Ys]
        obtain m' where r: "MeltTokens_switch env ?q Ys proofs resp' mS =
             (Inr (?q\<lparr>lq_State := nut05_Paid, lq_Preimage := ps_Preimage pst\<rparr>), m')"
          and t: "melt_quotes (db m') =
              map (\<lambda>x. if lq_Id x = lq_Id ?q then x\<lparr>lq_State := nut05_Paid, lq_Preimage := ps_Preimage pst\<rparr> else x)
                (melt_quotes (db mS))"
            "pending_proofs (db m') = filter (\<lambda>r. dbp_Y r \<notin> set Ys) (pending_proofs (db mS))"
            "used_proofs (db m') = used_proofs (db mS) @ spent"
          by blast
        show ?thesis
          unfolding S r using lightning_Succeeded
          by (simp add: c t tabS i melt_update_twice fq unlock del: map_map filter_append)
      next
        case lightning_Failed
        note pf = this
        show ?thesis
        proof (cases perr)
          case None
          have "MeltTokens_switch env ?q Ys proofs resp' mS =
              (Inr ?q, ln_record (CallOutgoingPaymentStatus (lq_PaymentHash ?q)) mS)"
            using \<open>ps_PaymentStatus resp' = lightning_Failed\<close> prS [unfolded None] pf
            by (rule MeltTokens_switch_Failed_Failed_no_error)
          then show ?thesis
            unfolding S using pf None by (simp add: c tabS fq db_ln_record del: map_map filter_append)
        next
          case (Some msg)
          have "MeltTokens_switch env ?q Ys proofs resp' mS =
             (Inr (?q\<lparr>lq_State := nut05_Unpaid\<rparr>),
              (ln_record (CallOutgoingPaymentStatus (lq_PaymentHash ?q)) mS)
                \<lparr>db := (db mS)\<lparr>melt_quotes :=
                    map (\<lambda>x. if lq_Id x = lq_Id ?q then x\<lparr>lq_State := nut05_Unpaid, lq_Preimage := []\<rparr> else x)
                      (melt_quotes (db mS)),
                  pending_proofs := filter (\<lambda>r. dbp_Y r \<notin> set Ys) (pending_proofs (db mS))\<rparr>\<rparr>)"
            using fS \<open>ps_PaymentStatus resp' = lightning_Failed\<close> prS [unfolded Some] pf
            by (rule MeltTokens_switch_Failed_Failed_error)
          then show ?thesis
            unfolding S using pf Some
            by (simp add: c tabS i melt_update_twice fq unlock del: map_map filter_append)
        qed
      qed
    qed
  qed
qed

lemmas melt_defs =
  MeltTokens_def MeltTokens_external_def MeltTokens_internal_def MeltTokens_switch_def
  settleQuotesInternally_def settleProofs_def verifyProofs_def CheckDuplicateProofs_def
  TransactionFees_def

lemma ex_melt_ready:
  "db_faults (db (ex_mint_melt [] ''h1'' [] ln)) = []"
  "find (\<lambda>x. lq_Id x = ''melt1'') (melt_quotes (db (ex_mint_melt [] ''h1'' [] ln))) = Some (ex_melt_quote ''h1'')"
  "lq_State (ex_melt_quote ''h1'') = nut05_Unpaid"
  "proofs_Ys ex_env ex_proofs = Some [''Ys1'', ''Ys2'']"
  "verifyProofs ex_env ex_proofs [''Ys1'', ''Ys2''] (ex_mint_melt [] ''h1'' [] ln)
     = (None, ex_mint_melt [] ''h1'' [] ln)"
  "\<not> foldl (\<lambda>a p. a + p_Amount p) 0 ex_proofs
       < lq_Amount (ex_melt_quote ''h1'') + lq_FeeReserve (ex_melt_quote ''h1'')
         + TransactionFees (ex_mint_melt [] ''h1'' [] ln) ex_proofs"
  "\<not> ProofsSigAll ex_env ex_proofs"
  "find (\<lambda>x. mq_PaymentHash x = lq_PaymentHash (ex_melt_quote ''h1''))
     (mint_quotes (db (ex_mint_melt [] ''h1'' [] ln))) = None"
  "db_rows ex_env ''melt1'' ex_proofs
     = Some [(ex_row ''s1'')\<lparr>dbp_Amount := 4, dbp_MeltQuoteId := ''melt1''\<rparr>,
             (ex_row ''s2'')\<lparr>dbp_MeltQuoteId := ''melt1''\<rparr>]"
  "db_rows ex_env [] ex_proofs
     = Some [(ex_row ''s1'')\<lparr>dbp_Amount := 4, dbp_MeltQuoteId := []\<rparr>,
             (ex_row ''s2'')\<lparr>dbp_MeltQuoteId := []\<rparr>]"
  by (simp_all add: melt_defs ex_defs db_defs)

theorem MeltTokens_payment_outcomes_witness:
  "verifyProofs ex_env ex_proofs [''Ys1'', ''Ys2''] (ex_mint_melt [] ''h1'' [] (ex_ln ex_succeeded ex_failed))
     = (None, ex_mint_melt [] ''h1'' [] (ex_ln ex_succeeded ex_failed))
   \<and> (\<exists>q' m'. MeltTokens ex_env BOLT11_METHOD ''melt1'' ex_proofs
                 (ex_mint_melt [] ''h1'' [] (ex_ln ex_succeeded ex_failed)) = (Inr q', m')
        \<and> q' = (ex_melt_quote ''h1'')\<lparr>lq_State := nut05_Paid, lq_Preimage := ''paid''\<rparr>
        \<and> find (\<lambda>x. lq_Id x = ''melt1'') (melt_quotes (db m')) = Some q'
        \<and> pending_proofs (db m') = []
        \<and> map dbp_Y (used_proofs (db m')) = [''Ys1'', ''Ys2''])
   \<and> (\<exists>q' m'. MeltTokens ex_env BOLT11_METHOD ''melt1'' ex_proofs
                 (ex_mint_melt [] ''h1'' [] (ex_ln ex_failed (fst ex_failed, Some ''payment failed''))) = (Inr q', m')
        \<and> q' = (ex_melt_quote ''h1'')\<lparr>lq_State := nut05_Unpaid\<rparr>
        \<and> find (\<lambda>x. lq_Id x = ''melt1'') (melt_quotes (db m')) = Some q'
        \<and> pending_proofs (db m') = []
        \<and> used_proofs (db m') = [])"
proof (intro conjI)
  show "verifyProofs ex_env ex_proofs [''Ys1'', ''Ys2''] (ex_mint_melt [] ''h1'' [] (ex_ln ex_succeeded ex_failed))
     = (None, ex_mint_melt [] ''h1'' [] (ex_ln ex_succeeded ex_failed))"
    by (rule ex_melt_ready)
next
  let ?ln = "ex_ln ex_succeeded ex_failed"
  have s: "ln_SendPayment (lightningClient (ex_mint_melt [] ''h1'' [] ?ln))
             (lq_InvoiceRequest (ex_melt_quote ''h1'')) (lq_Amount (ex_melt_quote ''h1''))
           = (\<lparr>ps_Preimage = ''paid'', ps_PaymentStatus = lightning_Succeeded\<rparr>, None)"
    and p: "ln_OutgoingPaymentStatus (lightningClient (ex_mint_melt [] ''h1'' [] ?ln))
             (lq_PaymentHash (ex_melt_quote ''h1''))
           = (\<lparr>ps_Preimage = [], ps_PaymentStatus = lightning_Failed\<rparr>, None)"
    by (simp_all add: ex_defs)
  from MeltTokens_payment_outcomes [OF ex_melt_ready(1-10) s p]
  obtain q' m' where
    r: "MeltTokens ex_env BOLT11_METHOD ''melt1'' ex_proofs (ex_mint_melt [] ''h1'' [] ?ln) = (Inr q', m')"
    and f: "find (\<lambda>x. lq_Id x = ''melt1'') (melt_quotes (db m')) =
          Some ((ex_melt_quote ''h1'')\<lparr>lq_State := lq_State q',
                          lq_Preimage := (if lq_State q' = nut05_Paid then lq_Preimage q' else [])\<rparr>)"
    and t: "(q', pending_proofs (db m'), used_proofs (db m')) =
         ((ex_melt_quote ''h1'')\<lparr>lq_State := nut05_Paid, lq_Preimage := ''paid''\<rparr>,
          pending_proofs (db (ex_mint_melt [] ''h1'' [] ?ln)),
          used_proofs (db (ex_mint_melt [] ''h1'' [] ?ln))
            @ [(ex_row ''s1'')\<lparr>dbp_Amount := 4, dbp_MeltQuoteId := []\<rparr>, (ex_row ''s2'')\<lparr>dbp_MeltQuoteId := []\<rparr>])"
    by auto
  from t have q: "q' = (ex_melt_quote ''h1'')\<lparr>lq_State := nut05_Paid, lq_Preimage := ''paid''\<rparr>"
    and pe: "pending_proofs (db m') = []"
    and us: "map dbp_Y (used_proofs (db m')) = [''Ys1'', ''Ys2'']"
    by (simp_all add: ex_defs)
  from f have fq: "find (\<lambda>x. lq_Id x = ''melt1'') (melt_quotes (db m')) = Some q'"
    unfolding q by simp
  show "\<exists>q' m'. MeltTokens ex_env BOLT11_METHOD ''melt1'' ex_proofs
                 (ex_mint_melt [] ''h1'' [] ?ln) = (Inr q', m')
        \<and> q' = (ex_melt_quote ''h1'')\<lparr>lq_State := nut05_Paid, lq_Preimage := ''paid''\<rparr>
        \<and> find (\<lambda>x. lq_Id x = ''melt1'') (melt_quotes (db m')) = Some q'
        \<and> pending_proofs (db m') = []
        \<and> map dbp_Y (used_proofs (db m')) = [''Ys1'', ''Ys2'']"
    by (rule exI [of _ q'], rule exI [of _ m']) (simp add: r fq pe us, simp add: q)
next
  let ?ln = "ex_ln ex_failed (fst ex_failed, Some ''payment failed'')"
  have s: "ln_SendPayment (lightningClient (ex_mint_melt [] ''h1'' [] ?ln))
             (lq_InvoiceRequest (ex_melt_quote ''h1'')) (lq_Amount (ex_melt_quote ''h1''))
           = (\<lparr>ps_Preimage = [], ps_PaymentStatus = lightning_Failed\<rparr>, None)"
    and p: "ln_OutgoingPaymentStatus (lightningClient (ex_mint_melt [] ''h1'' [] ?ln))
             (lq_PaymentHash (ex_melt_quote ''h1''))
           = (\<lparr>ps_Preimage = [], ps_PaymentStatus = lightning_Failed\<rparr>, Some ''payment failed'')"
    by (simp_all add: ex_defs)
  from MeltTokens_payment_outcomes [OF ex_melt_ready(1-10) s p]
  obtain q' m' where
    r: "MeltTokens ex_env BOLT11_METHOD ''melt1'' ex_proofs (ex_mint_melt [] ''h1'' [] ?ln) = (Inr q', m')"
    and f: "find (\<lambda>x. lq_Id x = ''melt1'') (melt_quotes (db m')) =
          Some ((ex_melt_quote ''h1'')\<lparr>lq_State := lq_State q',
                          lq_Preimage := (if lq_State q' = nut05_Paid then lq_Preimage q' else [])\<rparr>)"
    and t: "(q', pending_proofs (db m'), used_proofs (db m')) =
         ((ex_melt_quote ''h1'')\<lparr>lq_State := nut05_Unpaid\<rparr>,
          pending_proofs (db (ex_mint_melt [] ''h1'' [] ?ln)),
          used_proofs (db (ex_mint_melt [] ''h1'' [] ?ln)))"
    by auto
  from t have q: "q' = (ex_melt_quote ''h1'')\<lparr>lq_State := nut05_Unpaid\<rparr>"
    and pe: "pending_proofs (db m') = []"
    and us: "used_proofs (db m') = []"
    by (simp_all add: ex_defs)
  from f have fq: "find (\<lambda>x. lq_Id x = ''melt1'') (melt_quotes (db m')) = Some q'"
    unfolding q by (simp add: ex_melt_quote_def)
  show "\<exists>q' m'. MeltTokens ex_env BOLT11_METHOD ''melt1'' ex_proofs
                 (ex_mint_melt [] ''h1'' [] ?ln) = (Inr q', m')
        \<and> q' = (ex_melt_quote ''h1'')\<lparr>lq_State := nut05_Unpaid\<rparr>
        \<and> find (\<lambda>x. lq_Id x = ''melt1'') (melt_quotes (db m')) = Some q'
        \<and> pending_proofs (db m') = []
        \<and> used_proofs (db m') = []"
    by (rule exI [of _ q'], rule exI [of _ m']) (simp add: r fq pe us, simp add: q)
qed

text \<open>
  Claim C3 as it is written fails when the probe reports Failed without an error.
  \<open>SendPayment\<close> reports Failed, \<open>OutgoingPaymentStatus\<close> reports Failed, neither
  with an error: the call returns the quote in state Pending, the stored quote is
  Pending, and the two proofs stay in the pending table, none is spent.
\<close>

theorem MeltTokens_probe_failed_without_error:
  "ln_SendPayment (lightningClient (ex_mint_melt [] ''h1'' [] (ex_ln ex_failed ex_failed))) ''lnbc2'' 4
     = (\<lparr>ps_Preimage = [], ps_PaymentStatus = lightning_Failed\<rparr>, None)
   \<and> ln_OutgoingPaymentStatus (lightningClient (ex_mint_melt [] ''h1'' [] (ex_ln ex_failed ex_failed))) ''h1''
     = (\<lparr>ps_Preimage = [], ps_PaymentStatus = lightning_Failed\<rparr>, None)
   \<and> fst (MeltTokens ex_env BOLT11_METHOD ''melt1'' ex_proofs
            (ex_mint_melt [] ''h1'' [] (ex_ln ex_failed ex_failed)))
     = Inr ((ex_melt_quote ''h1'')\<lparr>lq_State := nut05_Pending\<rparr>)
   \<and> map lq_State (melt_quotes (db (snd (MeltTokens ex_env BOLT11_METHOD ''melt1'' ex_proofs
            (ex_mint_melt [] ''h1'' [] (ex_ln ex_failed ex_failed))))))
     = [nut05_Pending]
   \<and> map dbp_Y (pending_proofs (db (snd (MeltTokens ex_env BOLT11_METHOD ''melt1'' ex_proofs
            (ex_mint_melt [] ''h1'' [] (ex_ln ex_failed ex_failed))))))
     = [''Ys1'', ''Ys2'']
   \<and> used_proofs (db (snd (MeltTokens ex_env BOLT11_METHOD ''melt1'' ex_proofs
            (ex_mint_melt [] ''h1'' [] (ex_ln ex_failed ex_failed)))))
     = []
   \<and> ln_calls (lightningClient (snd (MeltTokens ex_env BOLT11_METHOD ''melt1'' ex_proofs
            (ex_mint_melt [] ''h1'' [] (ex_ln ex_failed ex_failed)))))
     = [CallSendPayment ''lnbc2'' 4, CallOutgoingPaymentStatus ''h1'']"
  by (simp add: melt_defs ex_defs db_defs ln_defs Let_def)

section \<open>Internal settlement\<close>





section \<open>Two further facts\<close>

text \<open>
  The fee check of \<open>Swap\<close> compares \<open>proofsAmount - fees\<close> with the outputs. When the
  fee does not exceed the input sum the subtraction does not wrap, and the comparison
  is the one of the fee model: inputs below outputs plus fee.
\<close>

lemma Swap_fee_check_no_wrap:
  fixes proofsAmount fees blindedMessagesAmount :: u64
  assumes "fees \<le> proofsAmount"
  shows "(proofsAmount - fees < blindedMessagesAmount)
           = (unat proofsAmount < unat blindedMessagesAmount + unat fees)"
proof -
  have "unat (proofsAmount - fees) = unat proofsAmount - unat fees"
    using assms by (rule unat_sub)
  moreover have "unat fees \<le> unat proofsAmount"
    using assms by (simp add: word_le_nat_alt)
  ultimately show ?thesis
    by (auto simp: word_less_nat_alt)
qed

text \<open>
  \<open>settleQuotesInternally\<close> stores state Paid for the mint quote whatever its state
  was. On the mint whose quote \<open>q1\<close> is Issued, melting two proofs against a melt quote
  for the same payment hash settles internally and leaves \<open>q1\<close> Paid; \<open>MintTokens\<close> for
  \<open>q1\<close> then succeeds once more.
\<close>

lemma internal_settlement_reopens_issued_quote:
  "map mq_State (mint_quotes (db (ex_mint_melt [ex_mint_quote nut04_Issued] ''hq1'' []
       (ex_ln ex_succeeded ex_failed)))) = [nut04_Issued]
   \<and> map mq_State (mint_quotes (db (snd (MeltTokens ex_env BOLT11_METHOD ''melt1'' ex_proofs
       (ex_mint_melt [ex_mint_quote nut04_Issued] ''hq1'' [] (ex_ln ex_succeeded ex_failed))))))
       = [nut04_Paid]
   \<and> fst (MintTokens ex_env BOLT11_METHOD ''q1'' [ex_bm 4 ''B7'']
       (snd (MeltTokens ex_env BOLT11_METHOD ''melt1'' ex_proofs
         (ex_mint_melt [ex_mint_quote nut04_Issued] ''hq1'' [] (ex_ln ex_succeeded ex_failed)))))
       = Inr [ex_sig 4 ''B7'']"
  by (simp add: MintTokens_def melt_defs ex_defs db_defs ln_defs Let_def)

end
